theory Spec2Isabelle
  imports Complex_Main "HOL-Library.AList"
begin

section \<open>Data model\<close>

text \<open>
  The program handles JSON values as Python decodes them: \<open>None\<close>, booleans, numbers,
  strings, lists and dicts. Numbers are never inspected by the code verified here, so
  their type is a parameter. A dict keeps its insertion order and is an association list;
  a store \<open>d[k] = v\<close> is \<open>AList.update k v d\<close> (it replaces the value in place when
  the key exists and appends the pair otherwise), a lookup is \<open>map_of d k\<close>, and
  \<open>d.items()\<close> is the list itself.
\<close>

datatype 'n json =
    JNull
  | JBool bool
  | JNum 'n
  | JStr string
  | JList "'n json list"
  | JDict "(string \<times> 'n json) list"

type_synonym 'n dict = "(string \<times> 'n json) list"

datatype py_error = TypeError | AttributeError | KeyError | ZeroDivisionError

text \<open>\<open>key in d\<close> for a dict.\<close>

definition has_key :: "string \<Rightarrow> 'n dict \<Rightarrow> bool" where
  "has_key k d = (k \<in> set (map fst d))"

section \<open>Field Normalizer\<close>

text \<open>
  \<open>_normalize_field_names\<close> is the same text in \<open>WeatherDataManager\<close>
  (data_manager.py) and in \<open>LiveWeatherDataManager\<close> (live_data_manager.py); one
  embedding serves both. \<open>field_mappings\<close> is the dict literal of the source, in its
  order.
\<close>

definition field_mappings :: "(string \<times> string list) list" where
  "field_mappings =
    [(''temperature_2m'',
        [''temperature_2m_ecmwf_ifs025'', ''temperature_2m_ncep_gfs025'',
         ''temperature_2m_meteofrance_arpege_world025'']),
     (''relative_humidity_2m'',
        [''relative_humidity_2m_ecmwf_ifs025'', ''relative_humidity_2m_ncep_gfs025'',
         ''relative_humidity_2m_meteofrance_arpege_world025'']),
     (''pressure_msl'',
        [''pressure_msl_ecmwf_ifs025'', ''pressure_msl_ncep_gfs025'',
         ''pressure_msl_meteofrance_arpege_world025'']),
     (''wind_speed_10m'',
        [''wind_speed_10m_ecmwf_ifs025'', ''wind_speed_10m_ncep_gfs025'',
         ''wind_speed_10m_meteofrance_arpege_world025'']),
     (''wind_direction_10m'',
        [''wind_direction_10m_ecmwf_ifs025'', ''wind_direction_10m_ncep_gfs025'',
         ''wind_direction_10m_meteofrance_arpege_world025'']),
     (''precipitation'',
        [''precipitation_ecmwf_ifs025'', ''precipitation_ncep_gfs025'',
         ''precipitation_meteofrance_arpege_world025'']),
     (''dew_point_2m'',
        [''dew_point_2m_ecmwf_ifs025'', ''dew_point_2m_ncep_gfs025'',
         ''dew_point_2m_meteofrance_arpege_world025'']),
     (''apparent_temperature'',
        [''apparent_temperature_ecmwf_ifs025'', ''apparent_temperature_ncep_gfs025'',
         ''apparent_temperature_meteofrance_arpege_world025''])]"

text \<open>
  The inner loop \<open>for model_specific_name in model_specific_names\<close> with its
  \<open>break\<close>: the value of the first name that is a key of \<open>hourly\<close>.
\<close>

fun first_available :: "string list \<Rightarrow> 'n dict \<Rightarrow> 'n json option" where
  "first_available [] hourly = None"
| "first_available (model_specific_name # names) hourly =
     (case map_of hourly model_specific_name of
        Some v \<Rightarrow> Some v
      | None \<Rightarrow> first_available names hourly)"

text \<open>The outer loop \<open>for generic_name, model_specific_names in field_mappings.items()\<close>.\<close>

fun normalize_mapped :: "(string \<times> string list) list \<Rightarrow> 'n dict \<Rightarrow> 'n dict \<Rightarrow> 'n dict" where
  "normalize_mapped [] hourly normalized_hourly = normalized_hourly"
| "normalize_mapped ((generic_name, model_specific_names) # mappings) hourly normalized_hourly =
     normalize_mapped mappings hourly
       (case first_available model_specific_names hourly of
          Some v \<Rightarrow> AList.update generic_name v normalized_hourly
        | None \<Rightarrow> normalized_hourly)"

text \<open>\<open>any(field_name in models for models in field_mappings.values())\<close>.\<close>

definition is_model_specific :: "(string \<times> string list) list \<Rightarrow> string \<Rightarrow> bool" where
  "is_model_specific mappings field_name =
     (\<exists>models \<in> set (map snd mappings). field_name \<in> set models)"

text \<open>The last loop, \<open>for field_name, field_data in hourly.items()\<close>.\<close>

fun copy_unmapped :: "(string \<times> string list) list \<Rightarrow> 'n dict \<Rightarrow> 'n dict \<Rightarrow> 'n dict" where
  "copy_unmapped mappings [] normalized_hourly = normalized_hourly"
| "copy_unmapped mappings ((field_name, field_data) # items) normalized_hourly =
     copy_unmapped mappings items
       (if \<not> has_key field_name normalized_hourly \<and> \<not> is_model_specific mappings field_name
        then AList.update field_name field_data normalized_hourly
        else normalized_hourly)"

text \<open>The three steps on the hourly dict: copy \<open>time\<close>, bind the generic names, copy the rest.\<close>

definition normalize_hourly :: "'n dict \<Rightarrow> 'n dict" where
  "normalize_hourly hourly =
     copy_unmapped field_mappings hourly
       (normalize_mapped field_mappings hourly
          (case map_of hourly ''time'' of
             Some t \<Rightarrow> [(''time'', t)]
           | None \<Rightarrow> []))"

text \<open>
  \<open>x in obj\<close> for a string \<open>x\<close> and a decoded JSON value: key membership for a dict,
  element membership for a list, substring test for a string, \<open>TypeError\<close> otherwise.
\<close>

definition is_substring :: "string \<Rightarrow> string \<Rightarrow> bool" where
  "is_substring p s = list_ex (\<lambda>i. take (length p) (drop i s) = p) [0..<Suc (length s)]"

fun py_contains :: "string \<Rightarrow> 'n json \<Rightarrow> py_error + bool" where
  "py_contains x (JDict d) = Inr (has_key x d)"
| "py_contains x (JList vs) = Inr (JStr x \<in> set vs)"
| "py_contains x (JStr s) = Inr (is_substring x s)"
| "py_contains x _ = Inl TypeError"

text \<open>
  \<open>_normalize_field_names(data)\<close> for a response dict. When \<open>data['hourly']\<close> is a
  dict the three steps run. When it is anything else the source raises: a \<open>TypeError\<close>
  from the first successful membership test that is followed by \<open>hourly[name]\<close>, or
  from the membership test itself on a value that is no container, and otherwise an
  \<open>AttributeError\<close> at \<open>hourly.items()\<close>.
\<close>

definition normalize_field_names :: "'n dict \<Rightarrow> py_error + 'n dict" where
  "normalize_field_names data =
     (if data = [] \<or> \<not> has_key ''hourly'' data then Inr data
      else case map_of data ''hourly'' of
          Some (JDict hourly) \<Rightarrow> Inr (AList.update ''hourly'' (JDict (normalize_hourly hourly)) data)
        | Some other \<Rightarrow>
            (if list_ex (\<lambda>name. py_contains name other \<noteq> Inr False)
                  (''time'' # concat (map snd field_mappings))
             then Inl TypeError else Inl AttributeError)
        | None \<Rightarrow> Inr data)"

section \<open>Quality Validator\<close>

text \<open>\<open>obj[key]\<close> for a string key: only a dict can be indexed by a string.\<close>

fun py_getitem :: "'n json \<Rightarrow> string \<Rightarrow> py_error + 'n json" where
  "py_getitem (JDict d) key = (case map_of d key of Some v \<Rightarrow> Inr v | None \<Rightarrow> Inl KeyError)"
| "py_getitem _ key = Inl TypeError"

definition key_params :: "string list" where
  "key_params = [''temperature_2m'', ''pressure_msl'', ''relative_humidity_2m'', ''wind_speed_10m'']"

text \<open>\<open>sum(1 for v in values if v is not None)\<close>.\<close>

definition non_null_count :: "'n json list \<Rightarrow> nat" where
  "non_null_count values = length (filter (\<lambda>v. v \<noteq> JNull) values)"

text \<open>
  The loop \<open>for param in key_params\<close> of \<open>_has_valid_weather_data\<close>. The product
  \<open>len(values) * 0.25\<close> is exact in binary floating point (0.25 is a power of two) and
  Python compares an int with a float exactly, so the test is the one over the reals.
\<close>

fun check_key_params :: "string list \<Rightarrow> 'n json \<Rightarrow> py_error + bool" where
  "check_key_params [] hourly = Inr False"
| "check_key_params (param # params) hourly =
     (case py_contains param hourly of
        Inl e \<Rightarrow> Inl e
      | Inr False \<Rightarrow> check_key_params params hourly
      | Inr True \<Rightarrow>
          (case py_getitem hourly param of
             Inl e \<Rightarrow> Inl e
           | Inr (JList values) \<Rightarrow>
               if real (non_null_count values) > real (length values) * 0.25 then Inr True
               else check_key_params params hourly
           | Inr _ \<Rightarrow> check_key_params params hourly))"

definition has_valid_weather_data :: "'n dict \<Rightarrow> py_error + bool" where
  "has_valid_weather_data data =
     (if data = [] \<or> \<not> has_key ''hourly'' data then Inr False
      else case map_of data ''hourly'' of
          Some hourly \<Rightarrow> check_key_params key_params hourly
        | None \<Rightarrow> Inr False)"

section \<open>Fetch Client\<close>

text \<open>
  What \<open>requests.get\<close> does for one call: it raises \<open>Timeout\<close>, \<open>ConnectionError\<close>
  or another request exception, or it returns a response with a status code and a body
  that decodes to a JSON value or does not decode (\<open>None\<close>).
\<close>

datatype 'n http_result =
    Timeout
  | ConnectionError
  | OtherRequestError
  | Response nat "'n json option"

text \<open>\<open>response.raise_for_status()\<close> raises for the status codes 400 to 599.\<close>

definition raise_for_status :: "nat \<Rightarrow> bool" where
  "raise_for_status status = (400 \<le> status \<and> status < 600)"

text \<open>
  The block "Clean null values from the data" of the data manager: every list is copied
  element by element, \<open>None\<close> appended for \<open>None\<close>. The keys of the normalized
  dict are distinct, so filling the fresh dict \<open>cleaned_hourly\<close> is a map over the items.
\<close>

definition clean_values :: "'n json list \<Rightarrow> 'n json list" where
  "clean_values values = map (\<lambda>value. if value = JNull then JNull else value) values"

definition clean_hourly :: "'n dict \<Rightarrow> 'n dict" where
  "clean_hourly hourly =
     map (\<lambda>(param, values).
            (param, case values of JList vs \<Rightarrow> JList (clean_values vs) | _ \<Rightarrow> values)) hourly"

definition clean_null_values :: "'n dict \<Rightarrow> py_error + 'n dict" where
  "clean_null_values data =
     (if has_key ''hourly'' data then
        (case map_of data ''hourly'' of
           Some (JDict hourly) \<Rightarrow> Inr (AList.update ''hourly'' (JDict (clean_hourly hourly)) data)
         | _ \<Rightarrow> Inl AttributeError)
      else Inr data)"

definition add_metadata :: "string \<Rightarrow> 'n json list \<Rightarrow> 'n json \<Rightarrow> 'n json \<Rightarrow> 'n dict \<Rightarrow> 'n dict" where
  "add_metadata city coordinates latitude longitude data =
     AList.update ''longitude'' longitude
       (AList.update ''latitude'' latitude
          (AList.update ''coordinates'' (JList coordinates)
             (AList.update ''city'' (JStr city) data)))"

text \<open>
  \<open>WeatherDataManager._fetch_live_weather_data\<close> (data_manager.py). The whole body is
  inside \<open>try ... except Exception: return None\<close>. A body that decodes to a JSON value
  other than a dict always ends in an exception (at the latest at \<open>data['city'] = city\<close>),
  so it yields \<open>None\<close> as well. The first argument is what the HTTP request of this
  call does.
\<close>

definition WeatherDataManager_fetch_live_weather_data ::
    "'n http_result \<Rightarrow> string \<Rightarrow> 'n json list \<Rightarrow> 'n dict option" where
  "WeatherDataManager_fetch_live_weather_data reply city coordinates =
     (case coordinates of
        [latitude, longitude] \<Rightarrow>
          (case reply of
             Response status body \<Rightarrow>
               if raise_for_status status then None
               else (case body of
                   Some (JDict data) \<Rightarrow>
                     (case normalize_field_names data of
                        Inl e \<Rightarrow> None
                      | Inr normalized \<Rightarrow>
                          (case clean_null_values normalized of
                             Inl e \<Rightarrow> None
                           | Inr cleaned \<Rightarrow>
                               Some (add_metadata city coordinates latitude longitude cleaned)))
                 | _ \<Rightarrow> None)
           | _ \<Rightarrow> None)
      | _ \<Rightarrow> None)"

text \<open>
  \<open>LiveWeatherDataManager._fetch_live_weather_data\<close> (live_data_manager.py). It has three
  \<open>except\<close> clauses (\<open>Timeout\<close>, \<open>ConnectionError\<close>, \<open>Exception\<close>); each logs a
  warning and returns \<open>None\<close>. \<open>fetch_time\<close> is \<open>datetime.now().isoformat()\<close>.
\<close>

definition LiveWeatherDataManager_fetch_live_weather_data ::
    "'n http_result \<Rightarrow> string \<Rightarrow> string \<Rightarrow> 'n json list \<Rightarrow> 'n dict option" where
  "LiveWeatherDataManager_fetch_live_weather_data reply fetch_time city coordinates =
     (case coordinates of
        [latitude, longitude] \<Rightarrow>
          (case reply of
             Timeout \<Rightarrow> None
           | ConnectionError \<Rightarrow> None
           | OtherRequestError \<Rightarrow> None
           | Response status body \<Rightarrow>
               if raise_for_status status then None
               else (case body of
                   Some (JDict data) \<Rightarrow>
                     (case normalize_field_names data of
                        Inl e \<Rightarrow> None
                      | Inr normalized \<Rightarrow>
                          Some (AList.update ''fetch_time'' (JStr fetch_time)
                                  (add_metadata city coordinates latitude longitude normalized)))
                 | _ \<Rightarrow> None))
      | _ \<Rightarrow> None)"

section \<open>Batch Orchestrator\<close>

text \<open>
  The location catalog is the dict decoded from geolocations.json, name to coordinate
  list, in file order. The forecast backend is a function telling what the request for a
  location does; each location of a batch is requested once.
\<close>

type_synonym 'n locations = "(string \<times> 'n json list) list"

type_synonym 'n backend = "string \<Rightarrow> 'n json list \<Rightarrow> 'n http_result"

record 'n fetch_state =
  live_data :: "'n dict"
  completed :: nat
  failed :: nat

text \<open>
  The loop of \<open>_fetch_data_with_rate_limiting\<close>. The body is inside
  \<open>try ... except Exception: failed += 1; continue\<close>, so an exception of the validator
  counts as a failure like a rejection does. Sleeping and logging are not modelled.
\<close>

fun fetch_locations :: "'n backend \<Rightarrow> 'n locations \<Rightarrow> 'n fetch_state \<Rightarrow> 'n fetch_state" where
  "fetch_locations backend [] s = s"
| "fetch_locations backend ((city, coordinates) # rest) s =
     fetch_locations backend rest
       (case WeatherDataManager_fetch_live_weather_data (backend city coordinates) city coordinates of
          None \<Rightarrow> s\<lparr>failed := failed s + 1\<rparr>
        | Some data \<Rightarrow>
            (if data = [] then s\<lparr>failed := failed s + 1\<rparr>
             else case has_valid_weather_data data of
                 Inr True \<Rightarrow>
                   s\<lparr>live_data := AList.update city (JDict data) (live_data s),
                     completed := completed s + 1\<rparr>
               | Inr False \<Rightarrow> s\<lparr>failed := failed s + 1\<rparr>
               | Inl e \<Rightarrow> s\<lparr>failed := failed s + 1\<rparr>))"

definition run_batch :: "'n backend \<Rightarrow> 'n locations \<Rightarrow> 'n fetch_state" where
  "run_batch backend locations =
     fetch_locations backend locations \<lparr>live_data = [], completed = 0, failed = 0\<rparr>"

text \<open>
  After the loop the source computes \<open>(completed / total_locations) * 100\<close> for the
  summary log line, which raises \<open>ZeroDivisionError\<close> on an empty catalog; then it
  returns \<open>live_data\<close>. The counters \<open>completed\<close> and \<open>failed\<close> reach the caller
  only through that log line.
\<close>

definition fetch_data_with_rate_limiting :: "'n backend \<Rightarrow> 'n locations \<Rightarrow> py_error + 'n dict" where
  "fetch_data_with_rate_limiting backend locations =
     (let s = run_batch backend locations
      in if length locations = 0 then Inl ZeroDivisionError else Inr (live_data s))"

text \<open>
  The record the loop body stores for a location, if any: the fetch returned a non-empty
  dict and the validator returned \<open>True\<close> (the condition
  \<open>data and self._has_valid_weather_data(data)\<close>).
\<close>

definition fetched_and_accepted :: "'n backend \<Rightarrow> string \<Rightarrow> 'n json list \<Rightarrow> 'n dict option" where
  "fetched_and_accepted backend city coordinates =
     (case WeatherDataManager_fetch_live_weather_data (backend city coordinates) city coordinates of
        None \<Rightarrow> None
      | Some data \<Rightarrow>
          if data \<noteq> [] \<and> has_valid_weather_data data = Inr True then Some data else None)"

section \<open>Snapshot Cache\<close>

text \<open>
  The snapshot is the file \<open>OUTPUT_DATA_FILE\<close>. The manager keeps no copy of it in
  memory: the fields \<open>_data_cache\<close> and \<open>_cache_timestamp\<close> are set in \<open>__init__\<close> and
  never read or written again. A file is its content, seen through \<open>json.load\<close> (a JSON
  value, or text that does not parse), and its modification time. Timestamps are the
  seconds of \<open>time.time()\<close>, idealised as real numbers.
\<close>

datatype 'n file_content = Json "'n json" | Garbage

record 'n data_file =
  content :: "'n file_content"
  st_mtime :: real

text \<open>
  What the disk does when \<open>_perform_update\<close> writes: the write succeeds; or creating the
  directory or opening the file raises and the file is untouched; or the file is opened
  (and so truncated) and \<open>json.dump\<close> raises before the text is complete.
\<close>

datatype write_outcome = Written | OpenFails | DumpFails

text \<open>
  \<open>_perform_update\<close>, with the catalog that \<open>_load_locations\<close> returned (\<open>{}\<close> when
  loading failed). The result is the returned flag and the file afterwards. The whole
  body is inside \<open>try ... except Exception: return False\<close>.
\<close>

definition perform_update ::
    "'n backend \<Rightarrow> 'n locations \<Rightarrow> write_outcome \<Rightarrow> real \<Rightarrow> 'n data_file option \<Rightarrow> bool \<times> 'n data_file option" where
  "perform_update backend locations disk now output_file =
     (if locations = [] then (False, output_file)
      else case fetch_data_with_rate_limiting backend locations of
          Inl e \<Rightarrow> (False, output_file)
        | Inr fresh_data \<Rightarrow>
            if fresh_data = [] then (False, output_file)
            else (case disk of
                OpenFails \<Rightarrow> (False, output_file)
              | DumpFails \<Rightarrow> (False, Some \<lparr>content = Garbage, st_mtime = now\<rparr>)
              | Written \<Rightarrow>
                  (True, Some \<lparr>content = Json (JDict fresh_data), st_mtime = now\<rparr>)))"

text \<open>
  \<open>load_weather_data\<close>: \<open>None\<close> when the file is absent or does not parse. The log
  line evaluates \<open>len(data)\<close>, which raises for a JSON value without a length, and the
  exception handler returns \<open>None\<close> then too.
\<close>

definition load_weather_data :: "'n data_file option \<Rightarrow> 'n json option" where
  "load_weather_data output_file =
     (case output_file of
        None \<Rightarrow> None
      | Some f \<Rightarrow>
          (case content f of
             Garbage \<Rightarrow> None
           | Json data \<Rightarrow>
               (case data of
                  JDict d \<Rightarrow> Some data
                | JList vs \<Rightarrow> Some data
                | JStr s \<Rightarrow> Some data
                | _ \<Rightarrow> None)))"

section \<open>Refresh Scheduler: the staleness check\<close>

record config =
  LIVE_DATA_ENABLED :: bool
  DATA_UPDATE_INTERVAL :: int

text \<open>\<open>WeatherStationConfig()\<close> when no environment variable is set (config.py).\<close>

definition default_config :: config where
  "default_config = \<lparr>LIVE_DATA_ENABLED = True, DATA_UPDATE_INTERVAL = 604800\<rparr>"

text \<open>
  What \<open>output_file.exists()\<close> and \<open>output_file.stat()\<close> find: no file, a file with its
  modification time, or an exception of the operating system.
\<close>

datatype stat_result = NoSuchFile | Stat real | StatError

definition stat_file :: "'n data_file option \<Rightarrow> stat_result" where
  "stat_file output_file = (case output_file of None \<Rightarrow> NoSuchFile | Some f \<Rightarrow> Stat (st_mtime f))"

text \<open>
  The same probe when the operating system may refuse it: \<open>exists()\<close> or \<open>stat()\<close>
  raises (a \<open>PermissionError\<close>, say) although the file is there, or while it is absent.
\<close>

definition stat_probe :: "bool \<Rightarrow> 'n data_file option \<Rightarrow> stat_result" where
  "stat_probe os_error output_file = (if os_error then StatError else stat_file output_file)"

text \<open>
  \<open>should_update_data\<close>. The handler \<open>except Exception: return True\<close> carries the
  comment "Update on error to be safe".
\<close>

definition should_update_data :: "config \<Rightarrow> real \<Rightarrow> stat_result \<Rightarrow> bool" where
  "should_update_data cfg current_time st =
     (case st of
        NoSuchFile \<Rightarrow> True
      | Stat file_mtime \<Rightarrow>
          (let file_age_seconds = current_time - file_mtime
           in file_age_seconds \<ge> real_of_int (DATA_UPDATE_INTERVAL cfg))
      | StatError \<Rightarrow> True)"

section \<open>Live data manager\<close>

text \<open>The clock gives the \<open>fetch_time\<close> string stamped on the record of a city.\<close>

type_synonym clock = "string \<Rightarrow> string"

record 'n cities_state =
  result :: "'n dict"
  count :: nat
  errors :: nat

text \<open>
  The loop of \<open>_fetch_multiple_cities_data\<close>: \<open>if limit and count >= limit: break\<close>
  comes first in the body. Pacing and progress logging are not modelled (the progress
  line divides by the elapsed time; an exception there would leave the function and end
  in the handler's answer 500, which carries no data).
\<close>

fun fetch_cities :: "'n backend \<Rightarrow> clock \<Rightarrow> int \<Rightarrow> 'n locations \<Rightarrow> 'n cities_state \<Rightarrow> 'n cities_state" where
  "fetch_cities backend clock limit [] s = s"
| "fetch_cities backend clock limit ((city, coordinates) # rest) s =
     (if limit \<noteq> 0 \<and> int (count s) \<ge> limit then s
      else fetch_cities backend clock limit rest
        (case LiveWeatherDataManager_fetch_live_weather_data
                (backend city coordinates) (clock city) city coordinates of
           Some data \<Rightarrow>
             if data \<noteq> []
             then s\<lparr>result := AList.update city (JDict data) (result s), count := count s + 1\<rparr>
             else s\<lparr>errors := errors s + 1\<rparr>
         | None \<Rightarrow> s\<lparr>errors := errors s + 1\<rparr>))"

definition fetch_multiple_cities_data :: "'n backend \<Rightarrow> clock \<Rightarrow> 'n locations \<Rightarrow> int \<Rightarrow> 'n dict" where
  "fetch_multiple_cities_data backend clock locations limit =
     result (fetch_cities backend clock limit locations \<lparr>result = [], count = 0, errors = 0\<rparr>)"

text \<open>
  \<open>LiveWeatherDataManager.get_weather_data(city)\<close>, with the catalog that
  \<open>load_locations\<close> returned. An empty \<open>city\<close> is falsy and selects the batch of all
  cities.
\<close>

definition LiveWeatherDataManager_get_weather_data ::
    "'n backend \<Rightarrow> clock \<Rightarrow> 'n locations \<Rightarrow> string \<Rightarrow> 'n dict option" where
  "LiveWeatherDataManager_get_weather_data backend clock locations city =
     (if locations = [] then None
      else if city \<noteq> [] then
        (case map_of locations city of
           None \<Rightarrow> None
         | Some coordinates \<Rightarrow>
             LiveWeatherDataManager_fetch_live_weather_data
               (backend city coordinates) (clock city) city coordinates)
      else Some (fetch_multiple_cities_data backend clock locations 300))"

text \<open>
  \<open>values[current_hour_index]\<close> with Python's negative indexing, guarded in the source
  by \<open>len(values) > abs(current_hour_index)\<close>.
\<close>

definition current_hour_index :: int where
  "current_hour_index = - 1"

fun extract_current :: "'n dict \<Rightarrow> 'n dict \<Rightarrow> 'n dict" where
  "extract_current [] current = current"
| "extract_current ((param, values) # items) current =
     extract_current items
       (case values of
          JList vs \<Rightarrow>
            if int (length vs) > abs current_hour_index
            then AList.update param (vs ! nat (int (length vs) + current_hour_index)) current
            else current
        | _ \<Rightarrow> current)"

record 'n current_conditions =
  cc_city :: string
  cc_coordinates :: "'n json"
  cc_timezone :: "'n json"
  cc_fetch_time :: "'n json"
  cc_current :: "'n dict"

text \<open>\<open>d.get(key, default)\<close>.\<close>

definition dict_get :: "'n dict \<Rightarrow> string \<Rightarrow> 'n json \<Rightarrow> 'n json" where
  "dict_get d key fallback = (case map_of d key of Some v \<Rightarrow> v | None \<Rightarrow> fallback)"

text \<open>
  \<open>get_current_conditions\<close>. When \<open>data['hourly']\<close> is no dict, \<open>hourly.items()\<close>
  raises inside the \<open>try\<close> and the handler returns \<open>None\<close>.
\<close>

definition get_current_conditions ::
    "'n backend \<Rightarrow> clock \<Rightarrow> 'n locations \<Rightarrow> string \<Rightarrow> 'n current_conditions option" where
  "get_current_conditions backend clock locations city =
     (case LiveWeatherDataManager_get_weather_data backend clock locations city of
        None \<Rightarrow> None
      | Some data \<Rightarrow>
          if data = [] \<or> \<not> has_key ''hourly'' data then None
          else (case map_of data ''hourly'' of
              Some (JDict hourly) \<Rightarrow>
                Some \<lparr>cc_city = city,
                      cc_coordinates = dict_get data ''coordinates'' (JList []),
                      cc_timezone = dict_get data ''timezone'' (JStr ''UTC''),
                      cc_fetch_time = dict_get data ''fetch_time'' JNull,
                      cc_current = extract_current hourly []\<rparr>
            | _ \<Rightarrow> None))"

section \<open>The multi-location operation of the API layer\<close>

text \<open>
  The handler \<open>get_weather_data(limit)\<close> of index.py answers with one of these
  responses: the live data (status 200, with the counts \<open>total_available\<close> and
  \<open>requested\<close>), the data of the snapshot file (200), or an error (404 for an empty
  catalog, 503 when no city could be fetched, 404 when the snapshot cannot be loaded, 500
  for an exception).
\<close>

datatype 'n weather_response =
    LiveData "'n dict" nat nat
  | FileData "'n dict"
  | NoLocations
  | FetchFailed
  | NoSnapshot
  | InternalServerError

definition sanitize_limit :: "int \<Rightarrow> int" where
  "sanitize_limit limit = max 1 (min limit 300)"

definition get_weather_data ::
    "config \<Rightarrow> 'n backend \<Rightarrow> clock \<Rightarrow> 'n locations \<Rightarrow> 'n data_file option \<Rightarrow> int \<Rightarrow> 'n weather_response" where
  "get_weather_data cfg backend clock locations output_file requested_limit =
     (let limit = sanitize_limit requested_limit in
      if LIVE_DATA_ENABLED cfg then
        (if locations = [] then NoLocations
         else let limited_locations = take (nat limit) locations;
                  data = fetch_multiple_cities_data backend clock limited_locations limit
              in if data = [] then FetchFailed
                 else LiveData data (length locations) (length limited_locations))
      else
        (case load_weather_data output_file of
           None \<Rightarrow> NoSnapshot
         | Some (JDict data) \<Rightarrow>
             FileData (if limit < int (length data) then take (nat limit) data else data)
         | Some other \<Rightarrow> InternalServerError))"

definition response_data :: "'n weather_response \<Rightarrow> 'n dict option" where
  "response_data r =
     (case r of LiveData data n m \<Rightarrow> Some data | FileData data \<Rightarrow> Some data | _ \<Rightarrow> None)"

section \<open>Example inputs\<close>

text \<open>Concrete inputs on which the theorems below are instantiated.\<close>

definition canonical_only_hourly :: "int dict" where
  "canonical_only_hourly =
     [(''time'', JList [JStr ''2024-01-01T00:00'', JStr ''2024-01-01T01:00'']),
      (''temperature_2m'', JList [JNum 21, JNum 22])]"

definition mixed_hourly :: "int dict" where
  "mixed_hourly =
     [(''time'', JList [JStr ''2024-01-01T00:00'']),
      (''temperature_2m_ncep_gfs025'', JList [JNum 7]),
      (''temperature_2m_ecmwf_ifs025'', JList [JNum 5]),
      (''pressure_msl'', JList [JNum 1013]),
      (''rain'', JList [JNull])]"

definition all_null_record :: "int dict" where
  "all_null_record =
     [(''latitude'', JNum 48),
      (''hourly'', JDict
         [(''time'', JList [JStr ''t0'', JStr ''t1'']),
          (''temperature_2m'', JList [JNull, JNull]),
          (''pressure_msl'', JList [JNull, JNull]),
          (''relative_humidity_2m'', JList [JNull, JNull]),
          (''wind_speed_10m'', JList [JNull, JNull])])]"

definition thirty_percent_record :: "int dict" where
  "thirty_percent_record =
     [(''hourly'', JDict
         [(''temperature_2m'', JList (replicate 10 JNull)),
          (''pressure_msl'',
             JList [JNum 1013, JNull, JNull, JNum 1012, JNull, JNull, JNull, JNum 1011, JNull, JNull]),
          (''relative_humidity_2m'', JList (replicate 10 JNull)),
          (''wind_speed_10m'', JList (replicate 10 JNull))])]"

definition good_body :: "int json" where
  "good_body =
     JDict [(''timezone'', JStr ''UTC''),
            (''hourly'', JDict
               [(''time'', JList [JStr ''2024-01-01T00:00'', JStr ''2024-01-01T01:00'']),
                (''temperature_2m_ecmwf_ifs025'', JList [JNum 5, JNum 6])])]"

definition three_locations :: "int locations" where
  "three_locations =
     [(''Paris'', [JNum 48, JNum 2]),
      (''Tokyo'', [JNum 35, JNum 139]),
      (''Lima'', [JNum (- 12), JNum (- 77)])]"

definition tokyo_unreachable :: "int backend" where
  "tokyo_unreachable city coordinates =
     (if city = ''Tokyo'' then ConnectionError else Response 200 (Some good_body))"

definition backend_down :: "int backend" where
  "backend_down city coordinates = Timeout"

definition paris_record :: "int dict" where
  "paris_record =
     [(''timezone'', JStr ''UTC''),
      (''hourly'', JDict
         [(''time'', JList [JStr ''2024-01-01T00:00'', JStr ''2024-01-01T01:00'']),
          (''temperature_2m'', JList [JNum 5, JNum 6])]),
      (''city'', JStr ''Paris''),
      (''coordinates'', JList [JNum 48, JNum 2]),
      (''latitude'', JNum 48),
      (''longitude'', JNum 2)]"

definition lima_record :: "int dict" where
  "lima_record =
     [(''timezone'', JStr ''UTC''),
      (''hourly'', JDict
         [(''time'', JList [JStr ''2024-01-01T00:00'', JStr ''2024-01-01T01:00'']),
          (''temperature_2m'', JList [JNum 5, JNum 6])]),
      (''city'', JStr ''Lima''),
      (''coordinates'', JList [JNum (- 12), JNum (- 77)]),
      (''latitude'', JNum (- 12)),
      (''longitude'', JNum (- 77))]"

definition old_snapshot :: "int data_file" where
  "old_snapshot =
     \<lparr>content = Json (JDict [(''Paris'', JDict paris_record)]), st_mtime = 1699000000\<rparr>"

definition fresh_snapshot :: "int data_file" where
  "fresh_snapshot =
     \<lparr>content = Json (JDict [(''Paris'', JDict paris_record)]), st_mtime = 1699996400\<rparr>"

definition example_clock :: clock where
  "example_clock city = ''2024-01-01T02:00:00''"

definition sparse_body :: "int json" where
  "sparse_body =
     JDict [(''timezone'', JStr ''Europe/Paris''),
            (''hourly'', JDict
               [(''time'', JList [JStr ''2024-01-01T00:00'', JStr ''2024-01-01T01:00'']),
                (''temperature_2m_ncep_gfs025'', JList [JNum 5, JNum 6]),
                (''rain'', JList [JNum 0]),
                (''snowfall'', JList []),
                (''units'', JStr ''metric'')])]"

definition sparse_backend :: "int backend" where
  "sparse_backend city coordinates = Response 200 (Some sparse_body)"

definition file_config :: config where
  "file_config = \<lparr>LIVE_DATA_ENABLED = False, DATA_UPDATE_INTERVAL = 604800\<rparr>"

definition two_city_snapshot :: "int data_file" where
  "two_city_snapshot =
     \<lparr>content = Json (JDict [(''Paris'', JDict paris_record), (''Lima'', JDict lima_record)]),
      st_mtime = 1699000000\<rparr>"

definition paris_live_record :: "int dict" where
  "paris_live_record = paris_record @ [(''fetch_time'', JStr ''2024-01-01T02:00:00'')]"

definition paris_sparse_record :: "int dict" where
  "paris_sparse_record =
     [(''timezone'', JStr ''Europe/Paris''),
      (''hourly'', JDict
         [(''time'', JList [JStr ''2024-01-01T00:00'', JStr ''2024-01-01T01:00'']),
          (''temperature_2m'', JList [JNum 5, JNum 6]),
          (''rain'', JList [JNum 0]),
          (''snowfall'', JList []),
          (''units'', JStr ''metric'')]),
      (''city'', JStr ''Paris''),
      (''coordinates'', JList [JNum 48, JNum 2]),
      (''latitude'', JNum 48),
      (''longitude'', JNum 2),
      (''fetch_time'', JStr ''2024-01-01T02:00:00'')]"

definition paris_conditions :: "int current_conditions" where
  "paris_conditions =
     \<lparr>cc_city = ''Paris'',
      cc_coordinates = JList [JNum 48, JNum 2],
      cc_timezone = JStr ''Europe/Paris'',
      cc_fetch_time = JStr ''2024-01-01T02:00:00'',
      cc_current = [(''time'', JStr ''2024-01-01T01:00''), (''temperature_2m'', JNum 6)]\<rparr>"

section \<open>Field Normalizer: properties\<close>

lemma first_available_None:
  "first_available names hourly = None \<longleftrightarrow> (\<forall>m \<in> set names. map_of hourly m = None)"
  by (induction names) (auto split: option.splits)

lemma first_available_Some:
  "first_available names hourly = Some v \<longleftrightarrow>
     (\<exists>i < length names. map_of hourly (names ! i) = Some v \<and>
        (\<forall>j < i. map_of hourly (names ! j) = None))"
proof (induction names)
  case Nil
  show ?case by simp
next
  case (Cons m names)
  show ?case
  proof (cases "map_of hourly m")
    case (Some w)
    have "(\<exists>i < length (m # names). map_of hourly ((m # names) ! i) = Some v \<and>
            (\<forall>j < i. map_of hourly ((m # names) ! j) = None)) \<longleftrightarrow> w = v"
    proof
      assume "\<exists>i < length (m # names). map_of hourly ((m # names) ! i) = Some v \<and>
            (\<forall>j < i. map_of hourly ((m # names) ! j) = None)"
      then obtain i where i: "map_of hourly ((m # names) ! i) = Some v"
        "\<forall>j < i. map_of hourly ((m # names) ! j) = None" by blast
      have "i = 0"
      proof (rule ccontr)
        assume "i \<noteq> 0"
        then have "map_of hourly ((m # names) ! 0) = None" using i(2) by blast
        then show False using Some by simp
      qed
      then show "w = v" using i(1) Some by simp
    next
      assume "w = v"
      then have "map_of hourly ((m # names) ! 0) = Some v" using Some by simp
      then show "\<exists>i < length (m # names). map_of hourly ((m # names) ! i) = Some v \<and>
            (\<forall>j < i. map_of hourly ((m # names) ! j) = None)" by auto
    qed
    then show ?thesis using Some by auto
  next
    case None
    have "(\<exists>i < length (m # names). map_of hourly ((m # names) ! i) = Some v \<and>
            (\<forall>j < i. map_of hourly ((m # names) ! j) = None)) \<longleftrightarrow>
          (\<exists>i < length names. map_of hourly (names ! i) = Some v \<and>
            (\<forall>j < i. map_of hourly (names ! j) = None))" (is "?L \<longleftrightarrow> ?R")
    proof
      assume ?L
      then obtain i where i: "i < length (m # names)"
        "map_of hourly ((m # names) ! i) = Some v"
        "\<forall>j < i. map_of hourly ((m # names) ! j) = None" by blast
      from i(2) None obtain i' where i': "i = Suc i'" by (cases i) auto
      have "\<forall>j < i'. map_of hourly (names ! j) = None"
      proof (intro allI impI)
        fix j assume "j < i'"
        then have "Suc j < i" using i' by simp
        then have "map_of hourly ((m # names) ! Suc j) = None" using i(3) by blast
        then show "map_of hourly (names ! j) = None" by simp
      qed
      then show ?R using i(1,2) i' by auto
    next
      assume ?R
      then obtain i where i: "i < length names" "map_of hourly (names ! i) = Some v"
        "\<forall>j < i. map_of hourly (names ! j) = None" by blast
      have "\<forall>j < Suc i. map_of hourly ((m # names) ! j) = None"
      proof (intro allI impI)
        fix j assume "j < Suc i"
        then show "map_of hourly ((m # names) ! j) = None"
          using None i(3) by (cases j) auto
      qed
      then show ?L using i(1,2) by (intro exI[of _ "Suc i"]) simp
    qed
    then show ?thesis using None Cons.IH by simp
  qed
qed

lemma map_of_normalize_mapped:
  "distinct (map fst mappings) \<Longrightarrow>
   map_of (normalize_mapped mappings hourly nh) k =
     (case map_of mappings k of
        Some names \<Rightarrow>
          (case first_available names hourly of Some v \<Rightarrow> Some v | None \<Rightarrow> map_of nh k)
      | None \<Rightarrow> map_of nh k)"
proof (induction mappings arbitrary: nh)
  case Nil
  show ?case by simp
next
  case (Cons p mappings)
  obtain g names where p: "p = (g, names)" by (cases p)
  from Cons.prems p have d: "distinct (map fst mappings)" and g: "g \<notin> fst ` set mappings"
    by auto
  from g have gn: "map_of mappings g = None" by (simp add: map_of_eq_None_iff)
  show ?case
    using Cons.IH[OF d] gn
    by (auto simp: p AList.update_conv' split: option.splits)
qed

lemma map_of_copy_unmapped:
  "map_of (copy_unmapped mappings items nh) k =
     (case map_of nh k of
        Some v \<Rightarrow> Some v
      | None \<Rightarrow> if is_model_specific mappings k then None else map_of items k)"
proof (induction items arbitrary: nh)
  case Nil
  show ?case by (simp split: option.splits)
next
  case (Cons p items)
  obtain f v where p: "p = (f, v)" by (cases p)
  have key: "has_key f nh \<longleftrightarrow> map_of nh f \<noteq> None"
    by (simp add: has_key_def map_of_eq_None_iff)
  show ?case
    using key by (auto simp: p Cons.IH AList.update_conv' split: option.splits)
qed

lemma distinct_field_mappings: "distinct (map fst field_mappings)"
  by (simp add: field_mappings_def)

lemma generic_not_model_specific:
  "map_of field_mappings k = Some names \<Longrightarrow> \<not> is_model_specific field_mappings k"
  by (simp add: field_mappings_def is_model_specific_def split: if_splits)

lemma time_not_mapped:
  "map_of field_mappings ''time'' = None" "\<not> is_model_specific field_mappings ''time''"
  by (simp_all add: field_mappings_def is_model_specific_def)

lemma has_key_map_of: "has_key k d \<longleftrightarrow> map_of d k \<noteq> None"
  by (simp add: has_key_def map_of_eq_None_iff)

lemma map_of_normalize_hourly:
  "map_of (normalize_hourly hourly) k =
     (case map_of field_mappings k of
        Some names \<Rightarrow>
          (case first_available names hourly of
             Some v \<Rightarrow> Some v
           | None \<Rightarrow> map_of hourly k)
      | None \<Rightarrow> if is_model_specific field_mappings k then None else map_of hourly k)"
proof -
  let ?nh0 = "case map_of hourly ''time'' of Some t \<Rightarrow> [(''time'', t)] | None \<Rightarrow> []"
  have nh0: "map_of ?nh0 k = (if k = ''time'' then map_of hourly ''time'' else None)"
    by (simp split: option.splits)
  show ?thesis
  proof (cases "map_of field_mappings k")
    case None
    show ?thesis
      using None time_not_mapped(2)
      by (auto simp: normalize_hourly_def map_of_copy_unmapped
            map_of_normalize_mapped[OF distinct_field_mappings] nh0 split: option.splits)
  next
    case (Some names)
    then have "k \<noteq> ''time''" using time_not_mapped(1) by auto
    then show ?thesis
      using Some generic_not_model_specific[OF Some]
      by (auto simp: normalize_hourly_def map_of_copy_unmapped
            map_of_normalize_mapped[OF distinct_field_mappings] nh0 split: option.splits)
  qed
qed

lemma mapped_names_model_specific:
  "map_of mappings k = Some names \<Longrightarrow> m \<in> set names \<Longrightarrow> is_model_specific mappings m"
  unfolding is_model_specific_def by (force dest: map_of_SomeD)

lemma not_key_map_of_None: "k \<notin> set (map fst d) \<Longrightarrow> map_of d k = None"
  by (simp add: map_of_eq_None_iff)

lemma normalize_hourly_no_model_specific_keys:
  "k \<in> set (map fst (normalize_hourly hourly)) \<Longrightarrow> \<not> is_model_specific field_mappings k"
proof -
  assume "k \<in> set (map fst (normalize_hourly hourly))"
  then have "map_of (normalize_hourly hourly) k \<noteq> None"
    by (simp add: map_of_eq_None_iff)
  then show ?thesis
    by (auto simp: map_of_normalize_hourly generic_not_model_specific split: option.splits if_splits)
qed

lemma normalize_hourly_canonical_map:
  assumes "\<forall>k \<in> set (map fst hourly). \<not> is_model_specific field_mappings k"
  shows "map_of (normalize_hourly hourly) = map_of hourly"
proof
  fix k
  have absent: "map_of hourly m = None" if "is_model_specific field_mappings m" for m
    using assms that not_key_map_of_None[of m hourly] by blast
  show "map_of (normalize_hourly hourly) k = map_of hourly k"
  proof (cases "map_of field_mappings k")
    case None
    then show ?thesis using absent[of k] by (simp add: map_of_normalize_hourly)
  next
    case (Some names)
    have "\<forall>m \<in> set names. map_of hourly m = None"
      using mapped_names_model_specific[OF Some] absent by blast
    then have "first_available names hourly = None" by (simp add: first_available_None)
    then show ?thesis using Some by (simp add: map_of_normalize_hourly)
  qed
qed

text \<open>
  Claim C3, as the code has it. For every hourly dict the normalizer copies \<open>time\<close>
  verbatim. Each generic name of \<open>field_mappings\<close> is bound to the value of the first
  model-specific name of its list that is a key of the input. When none is a key, the
  generic name is not null-filled: it keeps the input's own entry of that name when there
  is one, and is absent otherwise. Every field that is not bound in this way and is not a
  model-specific name passes through unchanged.
\<close>

theorem normalize_hourly_binding:
  "map_of (normalize_hourly hourly) ''time'' = map_of hourly ''time'' \<and>
   (\<forall>generic_name names. (generic_name, names) \<in> set field_mappings \<longrightarrow>
      (\<forall>v. first_available names hourly = Some v \<longrightarrow>
         map_of (normalize_hourly hourly) generic_name = Some v \<and>
         (\<exists>i < length names. map_of hourly (names ! i) = Some v \<and>
            (\<forall>j < i. map_of hourly (names ! j) = None))) \<and>
      (first_available names hourly = None \<longrightarrow>
         (\<forall>m \<in> set names. map_of hourly m = None) \<and>
         map_of (normalize_hourly hourly) generic_name = map_of hourly generic_name)) \<and>
   (\<forall>field_name.
      (\<forall>names. map_of field_mappings field_name = Some names \<longrightarrow>
         first_available names hourly = None) \<and>
      \<not> is_model_specific field_mappings field_name \<longrightarrow>
      map_of (normalize_hourly hourly) field_name = map_of hourly field_name)"
proof (intro conjI allI impI ballI)
  show "map_of (normalize_hourly hourly) ''time'' = map_of hourly ''time''"
    by (simp add: map_of_normalize_hourly time_not_mapped)
next
  fix generic_name names v
  assume m: "(generic_name, names) \<in> set field_mappings"
    and f: "first_available names hourly = Some v"
  from m have "map_of field_mappings generic_name = Some names"
    using distinct_field_mappings by simp
  then show "map_of (normalize_hourly hourly) generic_name = Some v"
    using f by (simp add: map_of_normalize_hourly)
  show "\<exists>i < length names. map_of hourly (names ! i) = Some v \<and>
            (\<forall>j < i. map_of hourly (names ! j) = None)"
    using f by (simp only: first_available_Some)
next
  fix generic_name names m
  assume "first_available names hourly = None" "m \<in> set names"
  then show "map_of hourly m = None" by (simp add: first_available_None)
next
  fix generic_name names
  assume m: "(generic_name, names) \<in> set field_mappings"
    and f: "first_available names hourly = None"
  from m have "map_of field_mappings generic_name = Some names"
    using distinct_field_mappings by simp
  then show "map_of (normalize_hourly hourly) generic_name = map_of hourly generic_name"
    using f by (simp add: map_of_normalize_hourly)
next
  fix field_name
  assume a: "(\<forall>names. map_of field_mappings field_name = Some names \<longrightarrow>
         first_available names hourly = None) \<and>
      \<not> is_model_specific field_mappings field_name"
  then show "map_of (normalize_hourly hourly) field_name = map_of hourly field_name"
    by (auto simp: map_of_normalize_hourly split: option.splits)
qed

text \<open>
  Claim C3 as stated says that a generic name is absent from the output whenever none of
  its model-specific names is present. An input that already uses the generic names (the
  answer of the public backend) refutes it: \<open>temperature_2m\<close> passes through.
\<close>

theorem normalize_absent_counterexample:
  "\<not> (first_available [''temperature_2m_ecmwf_ifs025'', ''temperature_2m_ncep_gfs025'',
         ''temperature_2m_meteofrance_arpege_world025''] canonical_only_hourly = None \<longrightarrow>
      map_of (normalize_hourly canonical_only_hourly) ''temperature_2m'' = None)"
  by (simp add: canonical_only_hourly_def map_of_normalize_hourly field_mappings_def)


theorem normalize_hourly_binding_witness:
  "map_of (normalize_hourly mixed_hourly) ''time'' = Some (JList [JStr ''2024-01-01T00:00'']) \<and>
   map_of (normalize_hourly mixed_hourly) ''temperature_2m'' = Some (JList [JNum 5]) \<and>
   map_of (normalize_hourly mixed_hourly) ''pressure_msl'' = Some (JList [JNum 1013]) \<and>
   map_of (normalize_hourly mixed_hourly) ''wind_speed_10m'' = None \<and>
   map_of (normalize_hourly mixed_hourly) ''rain'' = Some (JList [JNull])"
proof -
  let ?t = "[''temperature_2m_ecmwf_ifs025'', ''temperature_2m_ncep_gfs025'',
         ''temperature_2m_meteofrance_arpege_world025'']"
  let ?p = "[''pressure_msl_ecmwf_ifs025'', ''pressure_msl_ncep_gfs025'',
         ''pressure_msl_meteofrance_arpege_world025'']"
  let ?w = "[''wind_speed_10m_ecmwf_ifs025'', ''wind_speed_10m_ncep_gfs025'',
         ''wind_speed_10m_meteofrance_arpege_world025'']"
  note b = normalize_hourly_binding[of mixed_hourly]
  have t: "(''temperature_2m'', ?t) \<in> set field_mappings"
    and p: "(''pressure_msl'', ?p) \<in> set field_mappings"
    and w: "(''wind_speed_10m'', ?w) \<in> set field_mappings"
    by (simp_all add: field_mappings_def)
  have ft: "first_available ?t mixed_hourly = Some (JList [JNum 5])"
    and fp: "first_available ?p mixed_hourly = None"
    and fw: "first_available ?w mixed_hourly = None"
    by (simp_all add: mixed_hourly_def)
  have r: "(\<forall>names. map_of field_mappings ''rain'' = Some names \<longrightarrow>
         first_available names mixed_hourly = None) \<and>
      \<not> is_model_specific field_mappings ''rain''"
    by (simp add: field_mappings_def is_model_specific_def)
  have "map_of (normalize_hourly mixed_hourly) ''time'' = map_of mixed_hourly ''time''"
    using b by blast
  moreover have "map_of (normalize_hourly mixed_hourly) ''temperature_2m'' = Some (JList [JNum 5])"
    using b t ft by blast
  moreover have "map_of (normalize_hourly mixed_hourly) ''pressure_msl'' = map_of mixed_hourly ''pressure_msl''"
    using b p fp by blast
  moreover have "map_of (normalize_hourly mixed_hourly) ''wind_speed_10m'' = map_of mixed_hourly ''wind_speed_10m''"
    using b w fw by blast
  moreover have "map_of (normalize_hourly mixed_hourly) ''rain'' = map_of mixed_hourly ''rain''"
    using b r by blast
  ultimately show ?thesis by (simp add: mixed_hourly_def)
qed

text \<open>
  Claim C8. An hourly dict none of whose keys is a model-specific name is returned
  unchanged as a dict (equal as a mapping; Python's dict equality ignores order). The
  output of the normalizer never has a model-specific key, so normalizing twice gives the
  same dict as normalizing once.
\<close>

theorem normalize_hourly_canonical:
  "(\<forall>k \<in> set (map fst hourly). \<not> is_model_specific field_mappings k) \<Longrightarrow>
   map_of (normalize_hourly hourly) = map_of hourly \<and>
   map_of (normalize_hourly (normalize_hourly hourly)) = map_of (normalize_hourly hourly)"
  using normalize_hourly_canonical_map[of hourly]
    normalize_hourly_canonical_map[of "normalize_hourly hourly"]
    normalize_hourly_no_model_specific_keys[of _ hourly]
  by blast


theorem normalize_hourly_canonical_witness:
  "map_of (normalize_hourly canonical_only_hourly) = map_of canonical_only_hourly \<and>
   map_of (normalize_hourly canonical_only_hourly) ''temperature_2m'' =
     Some (JList [JNum 21, JNum 22])"
proof -
  have h: "\<forall>k \<in> set (map fst canonical_only_hourly). \<not> is_model_specific field_mappings k"
    by (simp add: canonical_only_hourly_def is_model_specific_def field_mappings_def)
  from normalize_hourly_canonical[OF h] show ?thesis
    by (simp add: canonical_only_hourly_def)
qed


section \<open>Quality Validator: properties\<close>

lemma check_key_params_dict:
  "check_key_params params (JDict hourly) =
     Inr (\<exists>param \<in> set params. \<exists>values. map_of hourly param = Some (JList values) \<and>
            real (non_null_count values) > real (length values) * 0.25)"
proof (induction params)
  case Nil
  show ?case by simp
next
  case (Cons p params)
  show ?case
  proof (cases "map_of hourly p")
    case None
    then show ?thesis by (simp add: Cons.IH has_key_map_of)
  next
    case (Some v)
    then show ?thesis
      by (cases v) (auto simp: Cons.IH has_key_map_of)
  qed
qed

lemma check_key_params_not_dict:
  "(\<And>hourly. other \<noteq> JDict hourly) \<Longrightarrow> check_key_params params other \<noteq> Inr True"
  by (induction params) (cases other; auto split: sum.splits bool.splits)+

lemma has_valid_weather_data_dict:
  "map_of data ''hourly'' = Some (JDict hourly) \<Longrightarrow>
   has_valid_weather_data data =
     Inr (\<exists>param \<in> set key_params. \<exists>values. map_of hourly param = Some (JList values) \<and>
            real (non_null_count values) > real (length values) * 0.25)"
  by (auto simp: has_valid_weather_data_def has_key_map_of check_key_params_dict)

lemma has_valid_weather_data_accepts:
  "has_valid_weather_data data = Inr True \<longleftrightarrow>
     (\<exists>hourly. map_of data ''hourly'' = Some (JDict hourly) \<and>
        (\<exists>param \<in> set key_params. \<exists>values. map_of hourly param = Some (JList values) \<and>
            real (non_null_count values) > real (length values) * 0.25))"
proof (cases "map_of data ''hourly''")
  case None
  then show ?thesis by (simp add: has_valid_weather_data_def has_key_map_of)
next
  case (Some h)
  then have k: "has_key ''hourly'' data" "data \<noteq> []" by (auto simp: has_key_map_of)
  show ?thesis
  proof (cases "\<exists>hourly. h = JDict hourly")
    case True
    then obtain hourly where h: "h = JDict hourly" by blast
    have "has_valid_weather_data data = check_key_params key_params (JDict hourly)"
      using Some k h by (simp add: has_valid_weather_data_def)
    then show ?thesis
      using Some h by (simp add: check_key_params_dict)
  next
    case False
    then have "check_key_params key_params h \<noteq> Inr True"
      by (intro check_key_params_not_dict) blast
    then show ?thesis using Some k False
      by (auto simp: has_valid_weather_data_def)
  qed
qed

lemma non_null_count_all_null: "(\<forall>v \<in> set values. v = JNull) \<Longrightarrow> non_null_count values = 0"
  by (simp add: non_null_count_def)

text \<open>
  Claim C2. The validator accepts a record (returns \<open>True\<close>) exactly when the record
  has an hourly series (a dict under \<open>hourly\<close>) in which, for at least one of the four
  key parameters bound to a list, the number of non-null samples is greater than 0.25
  times the length of the list. A record whose four key parameters are lists of nulls
  only is rejected. A record in which one key parameter has a non-empty list with 30
  percent non-null samples is accepted, whatever the other three hold.
\<close>

theorem has_valid_weather_data_threshold:
  "(has_valid_weather_data data = Inr True \<longleftrightarrow>
      (\<exists>hourly. map_of data ''hourly'' = Some (JDict hourly) \<and>
         (\<exists>param \<in> set key_params. \<exists>values. map_of hourly param = Some (JList values) \<and>
            real (non_null_count values) > real (length values) * 0.25))) \<and>
   (map_of data ''hourly'' = Some (JDict hourly) \<and>
      (\<forall>param \<in> set key_params. \<exists>values. map_of hourly param = Some (JList values) \<and>
         (\<forall>v \<in> set values. v = JNull)) \<longrightarrow>
      has_valid_weather_data data = Inr False) \<and>
   (map_of data ''hourly'' = Some (JDict hourly) \<and> param \<in> set key_params \<and>
      map_of hourly param = Some (JList values) \<and> values \<noteq> [] \<and>
      10 * non_null_count values = 3 * length values \<longrightarrow>
      has_valid_weather_data data = Inr True)"
proof (intro conjI impI)
  show "has_valid_weather_data data = Inr True \<longleftrightarrow>
      (\<exists>hourly. map_of data ''hourly'' = Some (JDict hourly) \<and>
         (\<exists>param \<in> set key_params. \<exists>values. map_of hourly param = Some (JList values) \<and>
            real (non_null_count values) > real (length values) * 0.25))"
    by (rule has_valid_weather_data_accepts)
next
  assume a: "map_of data ''hourly'' = Some (JDict hourly) \<and>
      (\<forall>param \<in> set key_params. \<exists>values. map_of hourly param = Some (JList values) \<and>
         (\<forall>v \<in> set values. v = JNull))"
  have "\<not> (\<exists>param \<in> set key_params. \<exists>values. map_of hourly param = Some (JList values) \<and>
            real (non_null_count values) > real (length values) * 0.25)"
  proof
    assume "\<exists>param \<in> set key_params. \<exists>values. map_of hourly param = Some (JList values) \<and>
            real (non_null_count values) > real (length values) * 0.25"
    then obtain p vs where p: "p \<in> set key_params" "map_of hourly p = Some (JList vs)"
      "real (non_null_count vs) > real (length vs) * 0.25" by blast
    from a p(1,2) have "\<forall>v \<in> set vs. v = JNull" by fastforce
    then have "non_null_count vs = 0" by (rule non_null_count_all_null)
    with p(3) show False by simp
  qed
  with a show "has_valid_weather_data data = Inr False"
    by (simp add: has_valid_weather_data_dict)
next
  assume a: "map_of data ''hourly'' = Some (JDict hourly) \<and> param \<in> set key_params \<and>
      map_of hourly param = Some (JList values) \<and> values \<noteq> [] \<and>
      10 * non_null_count values = 3 * length values"
  then have "real (length values) > 0" by simp
  moreover from a have "real (10 * non_null_count values) = real (3 * length values)" by simp
  then have "10 * real (non_null_count values) = 3 * real (length values)" by simp
  ultimately have "real (length values) < 4 * real (non_null_count values)"
    by linarith
  then have "real (non_null_count values) > real (length values) * 0.25"
    by simp
  with a show "has_valid_weather_data data = Inr True"
    by (auto simp: has_valid_weather_data_dict)
qed

text \<open>
  The two records of the claim: four all-null key parameters, and one key parameter with
  3 non-null samples out of 10 beside three all-null ones.
\<close>

theorem has_valid_weather_data_threshold_witness:
  "has_valid_weather_data all_null_record = Inr False \<and>
   has_valid_weather_data thirty_percent_record = Inr True"
proof -
  let ?h0 = "[(''time'', JList [JStr ''t0'', JStr ''t1'']),
          (''temperature_2m'', JList [JNull, JNull]),
          (''pressure_msl'', JList [JNull, JNull]),
          (''relative_humidity_2m'', JList [JNull, JNull]),
          (''wind_speed_10m'', JList [JNull, JNull::int json])]"
  let ?p = "[JNum 1013, JNull, JNull, JNum 1012, JNull, JNull, JNull, JNum 1011, JNull, JNull::int json]"
  let ?h1 = "[(''temperature_2m'', JList (replicate 10 JNull)),
          (''pressure_msl'', JList ?p),
          (''relative_humidity_2m'', JList (replicate 10 JNull)),
          (''wind_speed_10m'', JList (replicate 10 JNull))]"
  have a0: "map_of all_null_record ''hourly'' = Some (JDict ?h0) \<and>
      (\<forall>param \<in> set key_params. \<exists>values. map_of ?h0 param = Some (JList values) \<and>
         (\<forall>v \<in> set values. v = JNull))"
    by (simp add: all_null_record_def key_params_def)
  have a1: "map_of thirty_percent_record ''hourly'' = Some (JDict ?h1) \<and>
      ''pressure_msl'' \<in> set key_params \<and>
      map_of ?h1 ''pressure_msl'' = Some (JList ?p) \<and> ?p \<noteq> [] \<and>
      10 * non_null_count ?p = 3 * length ?p"
    by (simp add: thirty_percent_record_def key_params_def non_null_count_def)
  from has_valid_weather_data_threshold[of all_null_record ?h0] a0
  have "has_valid_weather_data all_null_record = Inr False" by blast
  moreover from has_valid_weather_data_threshold[of thirty_percent_record ?h1 "''pressure_msl''" ?p] a1
  have "has_valid_weather_data thirty_percent_record = Inr True" by blast
  ultimately show ?thesis by simp
qed

section \<open>Staleness check and Fetch Client: properties\<close>

text \<open>
  Claim C5 as stated says that an update is due exactly when the snapshot file is absent
  or at least \<open>DATA_UPDATE_INTERVAL\<close> old. A snapshot saved one hour ago whose status
  cannot be read is present and fresh, and the check still answers that an update is due.
\<close>

theorem should_update_data_error_counterexample:
  "\<not> (should_update_data default_config 1700000000 (stat_probe True (Some fresh_snapshot)) \<longleftrightarrow>
        (Some fresh_snapshot = None \<or>
         1700000000 - st_mtime fresh_snapshot \<ge>
           real_of_int (DATA_UPDATE_INTERVAL default_config)))"
  by (simp add: should_update_data_def stat_probe_def fresh_snapshot_def default_config_def)

text \<open>
  Claim C5, as the code has it. \<open>should_update_data\<close> answers that an update is due
  exactly when the snapshot file is absent, or its age, the current time minus its
  modification time, is at least \<open>DATA_UPDATE_INTERVAL\<close> (604800 seconds, 7 days, by
  default), or the status of the file cannot be read (any exception during the check is
  answered \<open>True\<close>, to be safe). With the default interval a readable file saved 8 days
  ago is due and a readable file saved 1 hour ago is not.
\<close>

theorem should_update_data_due:
  "(should_update_data cfg current_time (stat_probe os_error output_file) \<longleftrightarrow>
      os_error \<or> output_file = None \<or>
      (\<exists>f. output_file = Some f \<and>
         current_time - st_mtime f \<ge> real_of_int (DATA_UPDATE_INTERVAL cfg))) \<and>
   (should_update_data cfg current_time st \<longleftrightarrow>
      st = StatError \<or> st = NoSuchFile \<or>
      (\<exists>file_mtime. st = Stat file_mtime \<and>
         current_time - file_mtime \<ge> real_of_int (DATA_UPDATE_INTERVAL cfg))) \<and>
   should_update_data cfg current_time StatError \<and>
   should_update_data cfg current_time NoSuchFile \<and>
   (should_update_data cfg current_time (Stat file_mtime) \<longleftrightarrow>
      current_time - file_mtime \<ge> real_of_int (DATA_UPDATE_INTERVAL cfg)) \<and>
   DATA_UPDATE_INTERVAL default_config = 7 * 24 * 3600 \<and>
   DATA_UPDATE_INTERVAL default_config = 604800 \<and>
   should_update_data default_config current_time (Stat (current_time - 8 * 24 * 3600)) \<and>
   \<not> should_update_data default_config current_time (Stat (current_time - 3600))"
proof (intro conjI)
  show "should_update_data cfg current_time (stat_probe os_error output_file) \<longleftrightarrow>
      os_error \<or> output_file = None \<or>
      (\<exists>f. output_file = Some f \<and>
         current_time - st_mtime f \<ge> real_of_int (DATA_UPDATE_INTERVAL cfg))"
    by (cases output_file) (simp_all add: should_update_data_def stat_probe_def stat_file_def)
  show "should_update_data cfg current_time st \<longleftrightarrow>
      st = StatError \<or> st = NoSuchFile \<or>
      (\<exists>file_mtime. st = Stat file_mtime \<and>
         current_time - file_mtime \<ge> real_of_int (DATA_UPDATE_INTERVAL cfg))"
    by (cases st) (simp_all add: should_update_data_def)
  show "should_update_data cfg current_time StatError"
    and "should_update_data cfg current_time NoSuchFile"
    by (simp_all add: should_update_data_def)
  show "should_update_data cfg current_time (Stat file_mtime) \<longleftrightarrow>
      current_time - file_mtime \<ge> real_of_int (DATA_UPDATE_INTERVAL cfg)"
    by (simp add: should_update_data_def)
  show "DATA_UPDATE_INTERVAL default_config = 7 * 24 * 3600"
    and "DATA_UPDATE_INTERVAL default_config = 604800"
    by (simp_all add: default_config_def)
  show "should_update_data default_config current_time (Stat (current_time - 8 * 24 * 3600))"
    and "\<not> should_update_data default_config current_time (Stat (current_time - 3600))"
    by (simp_all add: should_update_data_def default_config_def)
qed

text \<open>
  At a concrete time: 8 days old and exactly 7 days old are due, 1 hour old and one second
  short of 7 days are not, and a file saved 1 hour ago is due when its status cannot be
  read and not due when it can.
\<close>

theorem should_update_data_due_witness:
  "should_update_data default_config 1700000000 (Stat (1700000000 - 8 * 24 * 3600)) \<and>
   \<not> should_update_data default_config 1700000000 (Stat (1700000000 - 3600)) \<and>
   should_update_data default_config 1700000000 (Stat (1700000000 - 604800)) \<and>
   \<not> should_update_data default_config 1700000000 (Stat (1700000000 - 604799)) \<and>
   should_update_data default_config 1700000000 (stat_probe True (Some fresh_snapshot)) \<and>
   \<not> should_update_data default_config 1700000000 (stat_probe False (Some fresh_snapshot)) \<and>
   should_update_data default_config 1700000000 (stat_probe False (None :: int data_file option))"
proof -
  note due = should_update_data_due[of default_config 1700000000]
  have i: "DATA_UPDATE_INTERVAL default_config = 604800"
    using due[of False None NoSuchFile 0] by blast
  have old: "should_update_data default_config 1700000000 (Stat (1700000000 - 8 * 24 * 3600))"
    and fresh: "\<not> should_update_data default_config 1700000000 (Stat (1700000000 - 3600))"
    using due[of False None NoSuchFile 0] by blast+
  have "should_update_data default_config 1700000000 (Stat (1700000000 - 604800)) \<longleftrightarrow>
      1700000000 - (1700000000 - 604800) \<ge> real_of_int (DATA_UPDATE_INTERVAL default_config)"
    using due[of False None NoSuchFile "1700000000 - 604800"] by blast
  then have edge: "should_update_data default_config 1700000000 (Stat (1700000000 - 604800))"
    by (simp add: i)
  have "should_update_data default_config 1700000000 (Stat (1700000000 - 604799)) \<longleftrightarrow>
      1700000000 - (1700000000 - 604799) \<ge> real_of_int (DATA_UPDATE_INTERVAL default_config)"
    using due[of False None NoSuchFile "1700000000 - 604799"] by blast
  then have below: "\<not> should_update_data default_config 1700000000 (Stat (1700000000 - 604799))"
    by (simp add: i)
  have "should_update_data default_config 1700000000 (stat_probe True (Some fresh_snapshot)) \<longleftrightarrow>
      True \<or> Some fresh_snapshot = None \<or>
      (\<exists>f. Some fresh_snapshot = Some f \<and>
         1700000000 - st_mtime f \<ge> real_of_int (DATA_UPDATE_INTERVAL default_config))"
    using due[of True "Some fresh_snapshot" NoSuchFile 0] by blast
  then have err: "should_update_data default_config 1700000000 (stat_probe True (Some fresh_snapshot))"
    by simp
  have "should_update_data default_config 1700000000 (stat_probe False (Some fresh_snapshot)) \<longleftrightarrow>
      False \<or> Some fresh_snapshot = None \<or>
      (\<exists>f. Some fresh_snapshot = Some f \<and>
         1700000000 - st_mtime f \<ge> real_of_int (DATA_UPDATE_INTERVAL default_config))"
    using due[of False "Some fresh_snapshot" NoSuchFile 0] by blast
  then have readable:
    "\<not> should_update_data default_config 1700000000 (stat_probe False (Some fresh_snapshot))"
    by (simp add: i fresh_snapshot_def)
  have "should_update_data default_config 1700000000 (stat_probe False (None :: int data_file option)) \<longleftrightarrow>
      False \<or> (None :: int data_file option) = None \<or>
      (\<exists>f. (None :: int data_file option) = Some f \<and>
         1700000000 - st_mtime f \<ge> real_of_int (DATA_UPDATE_INTERVAL default_config))"
    using due[of False "None :: int data_file option" NoSuchFile 0] by blast
  then have absent: "should_update_data default_config 1700000000 (stat_probe False (None :: int data_file option))"
    by simp
  from old fresh edge below err readable absent show ?thesis by blast
qed

text \<open>
  Claim C7 as stated says that the caller of a single-location fetch can tell a timeout
  from a connection failure by the outcome. Both fetches return the same value.
\<close>

theorem fetch_failure_same_value_counterexample:
  "\<not> (LiveWeatherDataManager_fetch_live_weather_data Timeout
          ''2024-01-01T00:00:00'' ''Paris'' [JNum 48, JNum (2::int)] \<noteq>
       LiveWeatherDataManager_fetch_live_weather_data ConnectionError
          ''2024-01-01T00:00:00'' ''Paris'' [JNum 48, JNum 2])"
  by (simp add: LiveWeatherDataManager_fetch_live_weather_data_def)

text \<open>
  Claim C7, as the code has it. For every single-location fetch, in both managers, a
  timeout, a connection failure, any other request exception and an HTTP error status
  (400 to 599) all give the caller the one value \<open>None\<close>. The separate \<open>except\<close>
  clauses of the live manager differ in the text of the logged warning only.
\<close>

theorem fetch_failures_return_None:
  "reply = Timeout \<or> reply = ConnectionError \<or> reply = OtherRequestError \<or>
     (\<exists>status body. reply = Response status body \<and> 400 \<le> status \<and> status < 600) \<Longrightarrow>
   LiveWeatherDataManager_fetch_live_weather_data reply fetch_time city coordinates = None \<and>
   WeatherDataManager_fetch_live_weather_data reply city coordinates = None"
  by (auto simp: LiveWeatherDataManager_fetch_live_weather_data_def
        WeatherDataManager_fetch_live_weather_data_def raise_for_status_def
        split: list.splits)

text \<open>
  A reply with status 503 and a timeout.
\<close>

theorem fetch_failures_return_None_witness:
  "LiveWeatherDataManager_fetch_live_weather_data (Response 503 None)
      ''2024-01-01T00:00:00'' ''Paris'' [JNum 48, JNum (2::int)] = None \<and>
   WeatherDataManager_fetch_live_weather_data Timeout ''Paris'' [JNum 48, JNum (2::int)] = None"
proof -
  have a: "Response 503 None = Timeout \<or> Response 503 None = ConnectionError \<or>
     Response 503 None = OtherRequestError \<or>
     (\<exists>status body. (Response 503 None :: int http_result) = Response status body \<and>
        400 \<le> status \<and> status < 600)"
    by simp
  have b: "Timeout = Timeout \<or> Timeout = ConnectionError \<or> Timeout = OtherRequestError \<or>
     (\<exists>status body. (Timeout :: int http_result) = Response status body \<and>
        400 \<le> status \<and> status < 600)"
    by simp
  from fetch_failures_return_None[OF a] fetch_failures_return_None[OF b]
  show ?thesis by blast
qed

section \<open>Batch Orchestrator and Snapshot Cache: properties\<close>

text \<open>
  The loop body of the batch, in terms of \<open>fetched_and_accepted\<close>.
\<close>

lemma fetch_locations_step:
  "fetch_locations backend ((city, coordinates) # rest) s =
     fetch_locations backend rest
       (case fetched_and_accepted backend city coordinates of
          None \<Rightarrow> s\<lparr>failed := failed s + 1\<rparr>
        | Some data \<Rightarrow>
            s\<lparr>live_data := AList.update city (JDict data) (live_data s),
              completed := completed s + 1\<rparr>)"
proof (cases "WeatherDataManager_fetch_live_weather_data (backend city coordinates) city coordinates")
  case None
  then show ?thesis by (simp add: fetched_and_accepted_def)
next
  case (Some data)
  show ?thesis
  proof (cases "has_valid_weather_data data")
    case (Inl e)
    then show ?thesis using Some by (simp add: fetched_and_accepted_def)
  next
    case (Inr b)
    then show ?thesis using Some by (cases b) (simp_all add: fetched_and_accepted_def)
  qed
qed

lemma fetch_locations_counts:
  "completed (fetch_locations backend locations s) =
     completed s + length (filter (\<lambda>(city, coordinates). fetched_and_accepted backend city coordinates \<noteq> None) locations) \<and>
   failed (fetch_locations backend locations s) =
     failed s + length (filter (\<lambda>(city, coordinates). fetched_and_accepted backend city coordinates = None) locations)"
proof (induction locations arbitrary: s)
  case Nil
  show ?case by simp
next
  case (Cons loc locations)
  obtain city coordinates where loc: "loc = (city, coordinates)" by (cases loc)
  show ?case
    by (cases "fetched_and_accepted backend city coordinates")
       (simp_all add: loc fetch_locations_step Cons.IH del: fetch_locations.simps)
qed

lemma update_new_key: "k \<notin> set (map fst d) \<Longrightarrow> AList.update k v d = d @ [(k, v)]"
  by (induction d) auto

lemma fetch_locations_live_data:
  "distinct (map fst locations) \<Longrightarrow> set (map fst locations) \<inter> set (map fst (live_data s)) = {} \<Longrightarrow>
   live_data (fetch_locations backend locations s) =
     live_data s @
     List.map_filter (\<lambda>(city, coordinates).
        map_option (\<lambda>data. (city, JDict data)) (fetched_and_accepted backend city coordinates))
       locations"
proof (induction locations arbitrary: s)
  case Nil
  show ?case by simp
next
  case (Cons loc locations)
  obtain city coordinates where loc: "loc = (city, coordinates)" by (cases loc)
  from Cons.prems loc have d: "distinct (map fst locations)"
    and c: "city \<notin> set (map fst locations)" "city \<notin> set (map fst (live_data s))"
    and disj: "set (map fst locations) \<inter> set (map fst (live_data s)) = {}"
    by auto
  show ?case
  proof (cases "fetched_and_accepted backend city coordinates")
    case None
    have "set (map fst locations) \<inter> set (map fst (live_data (s\<lparr>failed := failed s + 1\<rparr>))) = {}"
      using disj by simp
    from Cons.IH[OF d this] show ?thesis
      using None by (simp add: loc fetch_locations_step del: fetch_locations.simps)
  next
    case (Some data)
    let ?s = "s\<lparr>live_data := AList.update city (JDict data) (live_data s),
              completed := completed s + 1\<rparr>"
    have l: "AList.update city (JDict data) (live_data s) = live_data s @ [(city, JDict data)]"
      using c(2) by (rule update_new_key)
    have "set (map fst locations) \<inter> set (map fst (live_data ?s)) = {}"
      using disj c(1) by (auto simp: l)
    from Cons.IH[OF d this] show ?thesis
      using Some by (simp add: loc fetch_locations_step l del: fetch_locations.simps)
  qed
qed

lemma perform_update_result:
  "perform_update backend locations disk now output_file =
     (if live_data (run_batch backend locations) = [] then (False, output_file)
      else case disk of
          OpenFails \<Rightarrow> (False, output_file)
        | DumpFails \<Rightarrow> (False, Some \<lparr>content = Garbage, st_mtime = now\<rparr>)
        | Written \<Rightarrow>
            (True, Some \<lparr>content = Json (JDict (live_data (run_batch backend locations))),
                         st_mtime = now\<rparr>))"
proof (cases "locations = []")
  case True
  then show ?thesis by (simp add: perform_update_def run_batch_def)
next
  case False
  then show ?thesis
    by (simp add: perform_update_def fetch_data_with_rate_limiting_def Let_def)
qed

lemma paris_accepted:
  "fetched_and_accepted tokyo_unreachable ''Paris'' [JNum 48, JNum 2] = Some paris_record"
  by code_simp

lemma lima_accepted:
  "fetched_and_accepted tokyo_unreachable ''Lima'' [JNum (- 12), JNum (- 77)] = Some lima_record"
  by code_simp

lemma run_batch_backend_down:
  "run_batch backend_down three_locations = \<lparr>live_data = [], completed = 0, failed = 3\<rparr>"
  by code_simp

lemma run_batch_counts:
  "completed (run_batch backend locations) =
     length (filter (\<lambda>(city, coordinates). fetched_and_accepted backend city coordinates \<noteq> None) locations)"
  "failed (run_batch backend locations) =
     length (filter (\<lambda>(city, coordinates). fetched_and_accepted backend city coordinates = None) locations)"
  using fetch_locations_counts[of backend locations "\<lparr>live_data = [], completed = 0, failed = 0\<rparr>"]
  by (simp_all add: run_batch_def)

lemma run_batch_live_data:
  "distinct (map fst locations) \<Longrightarrow>
   live_data (run_batch backend locations) =
     List.map_filter (\<lambda>(city, coordinates).
        map_option (\<lambda>data. (city, JDict data)) (fetched_and_accepted backend city coordinates))
       locations"
  using fetch_locations_live_data[of locations "\<lparr>live_data = [], completed = 0, failed = 0\<rparr>" backend]
  by (simp add: run_batch_def)

lemma transport_error_rejected:
  "backend city coordinates = ConnectionError \<Longrightarrow>
   fetched_and_accepted backend city coordinates = None"
  by (simp add: fetched_and_accepted_def WeatherDataManager_fetch_live_weather_data_def
        split: list.splits)

lemma filter_split_count:
  "length (filter P xs) + length (filter (\<lambda>x. \<not> P x) xs) = length xs"
  by (induction xs) auto

text \<open>
  Claim C4. A location whose fetch fails or whose record is rejected never aborts the
  batch: every location of the catalog is processed and counted either as completed or
  as failed, the failure count is the number of locations that were not fetched and
  accepted, and on a non-empty catalog the batch returns its mapping. The mapping holds
  exactly the fetched and accepted records, in catalog order (a catalog is a dict, so its
  names are distinct). For three locations of which the second meets a connection error
  and the other two are accepted, the mapping holds the first and the third only and the
  failure count is 1.
\<close>

theorem batch_survives_failures:
  "completed (run_batch backend locations) + failed (run_batch backend locations) =
     length locations \<and>
   failed (run_batch backend locations) =
     length (filter (\<lambda>(city, coordinates).
        fetched_and_accepted backend city coordinates = None) locations) \<and>
   (locations \<noteq> [] \<longrightarrow>
      fetch_data_with_rate_limiting backend locations =
        Inr (live_data (run_batch backend locations))) \<and>
   (distinct (map fst locations) \<longrightarrow>
      live_data (run_batch backend locations) =
        List.map_filter (\<lambda>(city, coordinates).
           map_option (\<lambda>data. (city, JDict data))
             (fetched_and_accepted backend city coordinates)) locations) \<and>
   (distinct [c1, c2, c3] \<and>
    fetched_and_accepted backend c1 xy1 = Some d1 \<and>
    backend c2 xy2 = ConnectionError \<and>
    fetched_and_accepted backend c3 xy3 = Some d3 \<longrightarrow>
      fetch_data_with_rate_limiting backend [(c1, xy1), (c2, xy2), (c3, xy3)] =
        Inr [(c1, JDict d1), (c3, JDict d3)] \<and>
      failed (run_batch backend [(c1, xy1), (c2, xy2), (c3, xy3)]) = 1 \<and>
      completed (run_batch backend [(c1, xy1), (c2, xy2), (c3, xy3)]) = 2)"
proof (intro conjI impI)
  have "(\<lambda>loc. \<not> (case loc of (city, coordinates) \<Rightarrow>
            fetched_and_accepted backend city coordinates \<noteq> None)) =
        (\<lambda>(city, coordinates). fetched_and_accepted backend city coordinates = None)"
    by auto
  then show "completed (run_batch backend locations) + failed (run_batch backend locations) =
     length locations"
    using filter_split_count[of "\<lambda>(city, coordinates).
        fetched_and_accepted backend city coordinates \<noteq> None" locations]
    by (simp add: run_batch_counts)
next
  show "failed (run_batch backend locations) =
     length (filter (\<lambda>(city, coordinates).
        fetched_and_accepted backend city coordinates = None) locations)"
    by (rule run_batch_counts)
next
  assume "locations \<noteq> []"
  then show "fetch_data_with_rate_limiting backend locations =
        Inr (live_data (run_batch backend locations))"
    by (simp add: fetch_data_with_rate_limiting_def)
next
  assume "distinct (map fst locations)"
  then show "live_data (run_batch backend locations) =
        List.map_filter (\<lambda>(city, coordinates).
           map_option (\<lambda>data. (city, JDict data))
             (fetched_and_accepted backend city coordinates)) locations"
    by (rule run_batch_live_data)
next
  assume a: "distinct [c1, c2, c3] \<and>
    fetched_and_accepted backend c1 xy1 = Some d1 \<and>
    backend c2 xy2 = ConnectionError \<and>
    fetched_and_accepted backend c3 xy3 = Some d3"
  then have r: "fetched_and_accepted backend c2 xy2 = None"
    by (simp add: transport_error_rejected)
  have d: "distinct (map fst [(c1, xy1), (c2, xy2), (c3, xy3)])" using a by simp
  have l: "live_data (run_batch backend [(c1, xy1), (c2, xy2), (c3, xy3)]) =
      [(c1, JDict d1), (c3, JDict d3)]"
    using a r by (simp add: run_batch_live_data[OF d] List.map_filter_simps)
  then show "fetch_data_with_rate_limiting backend [(c1, xy1), (c2, xy2), (c3, xy3)] =
        Inr [(c1, JDict d1), (c3, JDict d3)]"
    by (simp add: fetch_data_with_rate_limiting_def)
  show "failed (run_batch backend [(c1, xy1), (c2, xy2), (c3, xy3)]) = 1"
    using a r by (simp add: run_batch_counts)
  show "completed (run_batch backend [(c1, xy1), (c2, xy2), (c3, xy3)]) = 2"
    using a r by (simp add: run_batch_counts)
qed

text \<open>
  Paris, Tokyo and Lima, with Tokyo unreachable.
\<close>

theorem batch_survives_failures_witness:
  "fetch_data_with_rate_limiting tokyo_unreachable three_locations =
     Inr [(''Paris'', JDict paris_record), (''Lima'', JDict lima_record)] \<and>
   failed (run_batch tokyo_unreachable three_locations) = 1 \<and>
   completed (run_batch tokyo_unreachable three_locations) = 2"
proof -
  have a: "distinct [''Paris'', ''Tokyo'', ''Lima''] \<and>
    fetched_and_accepted tokyo_unreachable ''Paris'' [JNum 48, JNum 2] = Some paris_record \<and>
    tokyo_unreachable ''Tokyo'' [JNum 35, JNum 139] = ConnectionError \<and>
    fetched_and_accepted tokyo_unreachable ''Lima'' [JNum (- 12), JNum (- 77)] = Some lima_record"
    by (simp add: paris_accepted lima_accepted tokyo_unreachable_def)
  from batch_survives_failures[of tokyo_unreachable three_locations
      "''Paris''" "''Tokyo''" "''Lima''" "[JNum 48, JNum 2]" paris_record
      "[JNum 35, JNum 139]" "[JNum (- 12), JNum (- 77)]" lima_record] a
  show ?thesis unfolding three_locations_def by blast
qed

text \<open>
  Claim C1. When the batch accepts no location (its record mapping is empty),
  \<open>_perform_update\<close> returns \<open>False\<close> and leaves the snapshot file as it was, content
  and modification time, whatever the disk would have done; \<open>load_weather_data\<close>
  returns afterwards what it returned before.
\<close>

theorem zero_accepted_leaves_snapshot:
  "live_data (run_batch backend locations) = [] \<Longrightarrow>
   perform_update backend locations disk now output_file = (False, output_file) \<and>
   load_weather_data (snd (perform_update backend locations disk now output_file)) =
     load_weather_data output_file \<and>
   stat_file (snd (perform_update backend locations disk now output_file)) =
     stat_file output_file"
  by (simp add: perform_update_result)

text \<open>
  Three locations against a backend that times out, with an older snapshot on disk.
\<close>

theorem zero_accepted_leaves_snapshot_witness:
  "perform_update backend_down three_locations Written 1700000000 (Some old_snapshot) =
     (False, Some old_snapshot) \<and>
   load_weather_data
     (snd (perform_update backend_down three_locations Written 1700000000 (Some old_snapshot))) =
     Some (JDict [(''Paris'', JDict paris_record)])"
proof -
  have e: "live_data (run_batch backend_down three_locations) = []"
    by (simp add: run_batch_backend_down)
  have l: "load_weather_data (Some old_snapshot) = Some (JDict [(''Paris'', JDict paris_record)])"
    by (simp add: load_weather_data_def old_snapshot_def)
  from zero_accepted_leaves_snapshot[OF e, of Written 1700000000 "Some old_snapshot"] l
  show ?thesis by simp
qed

lemma tokyo_unreachable_fresh:
  "live_data (run_batch tokyo_unreachable three_locations) =
     [(''Paris'', JDict paris_record), (''Lima'', JDict lima_record)]"
proof -
  have d: "distinct (map fst three_locations)" by (simp add: three_locations_def)
  show ?thesis
    unfolding run_batch_live_data[OF d]
    by (simp add: three_locations_def List.map_filter_simps paris_accepted lima_accepted
          transport_error_rejected tokyo_unreachable_def)
qed

text \<open>
  Claim C6 as stated says that a replace whose write to disk fails still changes the value
  that \<open>load_weather_data\<close> returns to the new snapshot. With no snapshot on disk and a
  file that cannot be opened for writing, the batch has two records and
  \<open>load_weather_data\<close> still returns \<open>None\<close>.
\<close>

theorem failed_persist_counterexample:
  "live_data (run_batch tokyo_unreachable three_locations) \<noteq> [] \<and>
   \<not> (load_weather_data
        (snd (perform_update tokyo_unreachable three_locations OpenFails 1700000000 None)) =
      Some (JDict (live_data (run_batch tokyo_unreachable three_locations))))"
  by (simp add: perform_update_result tokyo_unreachable_fresh load_weather_data_def)

text \<open>
  Claim C6, as the code has it. An update with at least one accepted record whose write
  succeeds returns \<open>True\<close>, and \<open>load_weather_data\<close> then returns the new snapshot.
  There is no copy in memory: when the write fails, the update returns \<open>False\<close> and
  \<open>load_weather_data\<close> returns what the disk holds, which is the previous value when
  the file could not be opened and \<open>None\<close> when the write broke off part-way.
\<close>

theorem replace_then_load:
  "live_data (run_batch backend locations) \<noteq> [] \<Longrightarrow>
   fst (perform_update backend locations Written now output_file) \<and>
   load_weather_data (snd (perform_update backend locations Written now output_file)) =
     Some (JDict (live_data (run_batch backend locations))) \<and>
   \<not> fst (perform_update backend locations OpenFails now output_file) \<and>
   load_weather_data (snd (perform_update backend locations OpenFails now output_file)) =
     load_weather_data output_file \<and>
   \<not> fst (perform_update backend locations DumpFails now output_file) \<and>
   load_weather_data (snd (perform_update backend locations DumpFails now output_file)) = None"
  by (simp add: perform_update_result load_weather_data_def)

text \<open>
  The three outcomes of the write over an older snapshot.
\<close>

theorem replace_then_load_witness:
  "load_weather_data
     (snd (perform_update tokyo_unreachable three_locations Written 1700000000 (Some old_snapshot))) =
     Some (JDict [(''Paris'', JDict paris_record), (''Lima'', JDict lima_record)]) \<and>
   load_weather_data
     (snd (perform_update tokyo_unreachable three_locations OpenFails 1700000000 (Some old_snapshot))) =
     Some (JDict [(''Paris'', JDict paris_record)]) \<and>
   load_weather_data
     (snd (perform_update tokyo_unreachable three_locations DumpFails 1700000000 (Some old_snapshot))) =
     None"
proof -
  have n: "live_data (run_batch tokyo_unreachable three_locations) \<noteq> []"
    by (simp add: tokyo_unreachable_fresh)
  have l: "load_weather_data (Some old_snapshot) = Some (JDict [(''Paris'', JDict paris_record)])"
    by (simp add: load_weather_data_def old_snapshot_def)
  from replace_then_load[OF n, of 1700000000 "Some old_snapshot"] l tokyo_unreachable_fresh
  show ?thesis by simp
qed

section \<open>Live data manager and API layer: properties\<close>

text \<open>
  A store adds at most one entry to a dict.
\<close>

lemma length_update_le: "length (AList.update k v d) \<le> Suc (length d)"
  by (induction d) auto

lemma fetch_cities_break:
  "limit \<noteq> 0 \<and> int (count s) \<ge> limit \<Longrightarrow>
   fetch_cities backend clock limit ((city, coordinates) # rest) s = s"
  by simp

lemma fetch_cities_continue:
  "\<not> (limit \<noteq> 0 \<and> int (count s) \<ge> limit) \<Longrightarrow>
   fetch_cities backend clock limit ((city, coordinates) # rest) s =
     fetch_cities backend clock limit rest
       (case LiveWeatherDataManager_fetch_live_weather_data
                (backend city coordinates) (clock city) city coordinates of
           Some data \<Rightarrow>
             if data \<noteq> []
             then s\<lparr>result := AList.update city (JDict data) (result s), count := count s + 1\<rparr>
             else s\<lparr>errors := errors s + 1\<rparr>
         | None \<Rightarrow> s\<lparr>errors := errors s + 1\<rparr>)"
  by (simp only: fetch_cities.simps if_False)

lemma fetch_cities_length:
  "length (result (fetch_cities backend clock limit locations s)) \<le>
     length (result s) + length locations"
proof (induction locations arbitrary: s)
  case Nil
  show ?case by simp
next
  case (Cons loc locations)
  obtain city coordinates where loc: "loc = (city, coordinates)" by (cases loc)
  show ?case
  proof (cases "limit \<noteq> 0 \<and> int (count s) \<ge> limit")
    case True
    show ?thesis unfolding loc fetch_cities_break[OF True] by simp
  next
    case False
    let ?s' = "case LiveWeatherDataManager_fetch_live_weather_data
                (backend city coordinates) (clock city) city coordinates of
           Some data \<Rightarrow>
             if data \<noteq> []
             then s\<lparr>result := AList.update city (JDict data) (result s), count := count s + 1\<rparr>
             else s\<lparr>errors := errors s + 1\<rparr>
         | None \<Rightarrow> s\<lparr>errors := errors s + 1\<rparr>"
    have "length (result ?s') \<le> Suc (length (result s))"
    proof (cases "LiveWeatherDataManager_fetch_live_weather_data
                (backend city coordinates) (clock city) city coordinates")
      case None
      then show ?thesis by simp
    next
      case (Some data)
      then show ?thesis using length_update_le[of city "JDict data" "result s"] by simp
    qed
    moreover have "length (result (fetch_cities backend clock limit locations ?s')) \<le>
        length (result ?s') + length locations"
      by (rule Cons.IH)
    ultimately have "length (result (fetch_cities backend clock limit locations ?s')) \<le>
        Suc (length (result s)) + length locations"
      by linarith
    then show ?thesis unfolding loc fetch_cities_continue[OF False] by simp
  qed
qed

lemma fetch_multiple_cities_data_length:
  "length (fetch_multiple_cities_data backend clock locations limit) \<le> length locations"
  using fetch_cities_length[of backend clock limit locations "\<lparr>result = [], count = 0, errors = 0\<rparr>"]
  by (simp add: fetch_multiple_cities_data_def)

lemma sanitize_limit_idem: "sanitize_limit (sanitize_limit limit) = sanitize_limit limit"
  by (simp add: sanitize_limit_def)

lemma get_weather_data_sanitized:
  "get_weather_data cfg backend clock locations output_file limit =
   get_weather_data cfg backend clock locations output_file (sanitize_limit limit)"
  by (simp add: get_weather_data_def sanitize_limit_idem)

lemma get_weather_data_live:
  "LIVE_DATA_ENABLED cfg \<Longrightarrow>
   response_data (get_weather_data cfg backend clock locations output_file limit) = Some data \<Longrightarrow>
   data = fetch_multiple_cities_data backend clock
            (take (nat (sanitize_limit limit)) locations) (sanitize_limit limit)"
  by (simp add: get_weather_data_def response_data_def Let_def split: if_splits)

lemma load_weather_data_file:
  "\<not> LIVE_DATA_ENABLED cfg \<Longrightarrow>
   response_data (get_weather_data cfg backend clock locations output_file limit) = Some data \<Longrightarrow>
   \<exists>d. data = (if sanitize_limit limit < int (length d)
               then take (nat (sanitize_limit limit)) d else d)"
proof -
  assume off: "\<not> LIVE_DATA_ENABLED cfg"
    and r: "response_data (get_weather_data cfg backend clock locations output_file limit) = Some data"
  show ?thesis
  proof (cases "load_weather_data output_file")
    case None
    then show ?thesis using off r by (simp add: get_weather_data_def response_data_def)
  next
    case (Some j)
    show ?thesis
    proof (cases "\<exists>d. j = JDict d")
      case True
      then obtain d where j: "j = JDict d" by blast
      have "data = (if sanitize_limit limit < int (length d)
               then take (nat (sanitize_limit limit)) d else d)"
        using off r Some j by (simp add: get_weather_data_def response_data_def Let_def)
      then show ?thesis by blast
    next
      case False
      then have "get_weather_data cfg backend clock locations output_file limit =
          InternalServerError"
        using off Some by (cases j) (simp_all add: get_weather_data_def)
      then show ?thesis using r by (simp add: response_data_def)
    qed
  qed
qed

lemma get_weather_data_size:
  assumes "response_data (get_weather_data cfg backend clock locations output_file limit) = Some data"
  shows "int (length data) \<le> sanitize_limit limit"
proof (cases "LIVE_DATA_ENABLED cfg")
  case True
  let ?limited = "take (nat (sanitize_limit limit)) locations"
  have "length (fetch_multiple_cities_data backend clock ?limited (sanitize_limit limit)) \<le>
      length ?limited"
    by (rule fetch_multiple_cities_data_length)
  then have "length data \<le> length ?limited"
    unfolding get_weather_data_live[OF True assms] .
  moreover have "length ?limited \<le> nat (sanitize_limit limit)" by simp
  ultimately have "length data \<le> nat (sanitize_limit limit)" by linarith
  moreover have "0 \<le> sanitize_limit limit" by (simp add: sanitize_limit_def)
  ultimately show ?thesis by (simp add: le_nat_iff)
next
  case False
  have pos: "1 \<le> sanitize_limit limit" by (simp add: sanitize_limit_def)
  from load_weather_data_file[OF False assms] obtain d where
    d: "data = (if sanitize_limit limit < int (length d) then take (nat (sanitize_limit limit)) d else d)"
    by blast
  show ?thesis
  proof (cases "sanitize_limit limit < int (length d)")
    case True
    then have "data = take (nat (sanitize_limit limit)) d" using d by simp
    then have "length data \<le> nat (sanitize_limit limit)" by simp
    moreover have "0 \<le> sanitize_limit limit" using pos by simp
    ultimately show ?thesis by (simp add: le_nat_iff)
  next
    case False
    then show ?thesis using d by simp
  qed
qed

text \<open>
  Claim C9. The handler replaces the requested limit by \<open>max(1, min(limit, 300))\<close>
  before anything else uses it: the answer to a limit is the answer to its clamped value,
  which lies between 1 and 300; a limit below 1 is answered as 1 and a limit above 300 as
  300. Whenever the answer carries a data mapping, live or from the snapshot file, the
  mapping has at most the clamped number of locations.
\<close>

theorem get_weather_data_limit_clamped:
  "get_weather_data cfg backend clock locations output_file limit =
     get_weather_data cfg backend clock locations output_file (sanitize_limit limit) \<and>
   1 \<le> sanitize_limit limit \<and> sanitize_limit limit \<le> 300 \<and>
   (limit < 1 \<longrightarrow>
      sanitize_limit limit = 1 \<and>
      get_weather_data cfg backend clock locations output_file limit =
        get_weather_data cfg backend clock locations output_file 1) \<and>
   (300 < limit \<longrightarrow>
      sanitize_limit limit = 300 \<and>
      get_weather_data cfg backend clock locations output_file limit =
        get_weather_data cfg backend clock locations output_file 300) \<and>
   (1 \<le> limit \<and> limit \<le> 300 \<longrightarrow> sanitize_limit limit = limit) \<and>
   (response_data (get_weather_data cfg backend clock locations output_file limit) = Some data \<longrightarrow>
      int (length data) \<le> sanitize_limit limit)"
proof (intro conjI impI)
  show "get_weather_data cfg backend clock locations output_file limit =
     get_weather_data cfg backend clock locations output_file (sanitize_limit limit)"
    by (rule get_weather_data_sanitized)
  show "1 \<le> sanitize_limit limit" "sanitize_limit limit \<le> 300"
    by (simp_all add: sanitize_limit_def)
next
  assume l: "limit < 1"
  then show s: "sanitize_limit limit = 1" by (simp add: sanitize_limit_def)
  show "get_weather_data cfg backend clock locations output_file limit =
        get_weather_data cfg backend clock locations output_file 1"
    by (subst get_weather_data_sanitized) (simp only: s)
next
  assume l: "300 < limit"
  then show s: "sanitize_limit limit = 300" by (simp add: sanitize_limit_def)
  show "get_weather_data cfg backend clock locations output_file limit =
        get_weather_data cfg backend clock locations output_file 300"
    by (subst get_weather_data_sanitized) (simp only: s)
next
  assume "1 \<le> limit \<and> limit \<le> 300"
  then show "sanitize_limit limit = limit" by (simp add: sanitize_limit_def)
next
  assume "response_data (get_weather_data cfg backend clock locations output_file limit) = Some data"
  then show "int (length data) \<le> sanitize_limit limit" by (rule get_weather_data_size)
qed

lemma live_limit_zero:
  "response_data
     (get_weather_data default_config tokyo_unreachable example_clock three_locations None 0) =
   Some [(''Paris'', JDict paris_live_record)]"
  by code_simp

lemma file_limit_negative:
  "response_data
     (get_weather_data file_config tokyo_unreachable example_clock three_locations
        (Some two_city_snapshot) (- 5)) =
   Some [(''Paris'', JDict paris_record)]"
  by code_simp

text \<open>
  Limits 0 and 1000 against the live backend, and limit -5 against a snapshot file of two
  cities.
\<close>

theorem get_weather_data_limit_clamped_witness:
  "get_weather_data default_config tokyo_unreachable example_clock three_locations None 0 =
     get_weather_data default_config tokyo_unreachable example_clock three_locations None 1 \<and>
   get_weather_data default_config tokyo_unreachable example_clock three_locations None 1000 =
     get_weather_data default_config tokyo_unreachable example_clock three_locations None 300 \<and>
   response_data
     (get_weather_data default_config tokyo_unreachable example_clock three_locations None 0) =
     Some [(''Paris'', JDict paris_live_record)] \<and>
   response_data
     (get_weather_data file_config tokyo_unreachable example_clock three_locations
        (Some two_city_snapshot) (- 5)) =
     Some [(''Paris'', JDict paris_record)] \<and>
   int (length [(''Paris'', JDict paris_record)]) \<le> sanitize_limit (- 5)"
proof -
  have lo: "(0::int) < 1" and hi: "(300::int) < 1000" by simp_all
  have "get_weather_data default_config tokyo_unreachable example_clock three_locations None 0 =
     get_weather_data default_config tokyo_unreachable example_clock three_locations None 1"
    using get_weather_data_limit_clamped[of default_config tokyo_unreachable example_clock
        three_locations None 0] lo by blast
  moreover have
    "get_weather_data default_config tokyo_unreachable example_clock three_locations None 1000 =
     get_weather_data default_config tokyo_unreachable example_clock three_locations None 300"
    using get_weather_data_limit_clamped[of default_config tokyo_unreachable example_clock
        three_locations None 1000] hi by blast
  moreover have "int (length [(''Paris'', JDict paris_record)]) \<le> sanitize_limit (- 5)"
    using get_weather_data_limit_clamped[of file_config tokyo_unreachable example_clock
        three_locations "Some two_city_snapshot" "- 5" "[(''Paris'', JDict paris_record)]"]
      file_limit_negative by blast
  ultimately show ?thesis using live_limit_zero file_limit_negative by blast
qed

lemma last_by_index:
  "int (length vs) > abs current_hour_index \<Longrightarrow>
   vs ! nat (int (length vs) + current_hour_index) = last vs"
proof -
  assume "int (length vs) > abs current_hour_index"
  then have ne: "vs \<noteq> []" by (auto simp: current_hour_index_def)
  have "nat (int (length vs) + current_hour_index) = length vs - 1"
    by (simp add: current_hour_index_def)
  then show ?thesis using ne by (simp add: last_conv_nth)
qed

lemma map_of_extract_current:
  "distinct (map fst items) \<Longrightarrow>
   map_of (extract_current items current) param =
     (case map_of items param of
        Some (JList vs) \<Rightarrow> if 2 \<le> length vs then Some (last vs) else map_of current param
      | _ \<Rightarrow> map_of current param)"
proof (induction items arbitrary: current)
  case Nil
  show ?case by simp
next
  case (Cons item items)
  obtain p vals where item: "item = (p, vals)" by (cases item)
  from Cons.prems item have d: "distinct (map fst items)" and p: "p \<notin> set (map fst items)"
    by auto
  from p have pn: "map_of items p = None" by (simp add: map_of_eq_None_iff)
  let ?current' = "case vals of
          JList vs \<Rightarrow>
            if int (length vs) > abs current_hour_index
            then AList.update p (vs ! nat (int (length vs) + current_hour_index)) current
            else current
        | _ \<Rightarrow> current"
  have step: "extract_current (item # items) current = extract_current items ?current'"
    by (simp add: item)
  have cur: "map_of ?current' q =
      (if q = p then
         (case vals of
            JList vs \<Rightarrow> if 2 \<le> length vs then Some (last vs) else map_of current q
          | _ \<Rightarrow> map_of current q)
       else map_of current q)" for q
  proof (cases "\<exists>vs. vals = JList vs")
    case True
    then obtain vs where v: "vals = JList vs" by blast
    have g: "int (length vs) > abs current_hour_index \<longleftrightarrow> 2 \<le> length vs"
      by (auto simp: current_hour_index_def)
    show ?thesis
    proof (cases "2 \<le> length vs")
      case True
      then have "int (length vs) > abs current_hour_index" using g by simp
      then show ?thesis using True v
        by (simp add: last_by_index AList.update_conv')
    next
      case False
      then show ?thesis using v g by simp
    qed
  next
    case False
    then show ?thesis by (cases vals) simp_all
  qed
  have ih: "map_of (extract_current items ?current') param =
     (case map_of items param of
        Some (JList vs) \<Rightarrow> if 2 \<le> length vs then Some (last vs) else map_of ?current' param
      | _ \<Rightarrow> map_of ?current' param)"
    by (rule Cons.IH[OF d])
  show ?case
  proof (cases "param = p")
    case True
    have n: "map_of items param = None" using pn True by simp
    have c: "map_of ?current' param =
         (case vals of
            JList vs \<Rightarrow> if 2 \<le> length vs then Some (last vs) else map_of current param
          | _ \<Rightarrow> map_of current param)"
      using cur[of param] True by simp
    have i: "map_of (item # items) param = Some vals" using True by (simp add: item)
    show ?thesis unfolding step ih n i c by simp
  next
    case False
    have c: "map_of ?current' param = map_of current param"
      using cur[of param] False by simp
    have i: "map_of (item # items) param = map_of items param" using False by (simp add: item)
    show ?thesis unfolding step ih i c by simp
  qed
qed

lemma distinct_normalize_mapped:
  "distinct (map fst nh) \<Longrightarrow> distinct (map fst (normalize_mapped mappings hourly nh))"
proof (induction mappings arbitrary: nh)
  case Nil
  then show ?case by simp
next
  case (Cons m mappings)
  obtain g names where m: "m = (g, names)" by (cases m)
  show ?case
    unfolding m normalize_mapped.simps
    by (rule Cons.IH) (auto simp: Cons.prems AList.distinct_update split: option.splits)
qed

lemma distinct_copy_unmapped:
  "distinct (map fst nh) \<Longrightarrow> distinct (map fst (copy_unmapped mappings items nh))"
proof (induction items arbitrary: nh)
  case Nil
  then show ?case by simp
next
  case (Cons item items)
  obtain f v where item: "item = (f, v)" by (cases item)
  show ?case
    unfolding item copy_unmapped.simps
    by (rule Cons.IH) (auto simp: Cons.prems AList.distinct_update)
qed

lemma distinct_normalize_hourly: "distinct (map fst (normalize_hourly hourly))"
  unfolding normalize_hourly_def
  by (intro distinct_copy_unmapped distinct_normalize_mapped) (simp split: option.splits)

lemma normalize_field_names_hourly:
  assumes "normalize_field_names data = Inr normalized"
    and "map_of normalized ''hourly'' = Some hv"
  shows "\<exists>hourly. hv = JDict (normalize_hourly hourly)"
proof (cases "map_of data ''hourly''")
  case None
  then have "normalized = data"
    using assms(1) by (simp add: normalize_field_names_def has_key_map_of)
  then show ?thesis using None assms(2) by simp
next
  case (Some h)
  then have k: "has_key ''hourly'' data" "data \<noteq> []" by (auto simp: has_key_map_of)
  show ?thesis
  proof (cases "\<exists>hourly. h = JDict hourly")
    case True
    then obtain hourly where h: "h = JDict hourly" by blast
    have "normalized = AList.update ''hourly'' (JDict (normalize_hourly hourly)) data"
      using assms(1) Some k h by (simp add: normalize_field_names_def)
    then show ?thesis using assms(2) by (auto simp: AList.update_conv')
  next
    case False
    then have "\<exists>e. normalize_field_names data = Inl e"
      using Some k by (cases h) (simp_all add: normalize_field_names_def)
    then show ?thesis using assms(1) by auto
  qed
qed

lemma map_of_add_metadata_hourly:
  "map_of (add_metadata city coordinates latitude longitude data) ''hourly'' =
   map_of data ''hourly''"
  by (simp add: add_metadata_def AList.update_conv')

lemma live_fetch_normalized:
  assumes "LiveWeatherDataManager_fetch_live_weather_data reply fetch_time city coordinates = Some data"
  shows "\<exists>body normalized. normalize_field_names body = Inr normalized \<and>
           map_of data ''hourly'' = map_of normalized ''hourly''"
proof -
  from assms obtain latitude longitude where c: "coordinates = [latitude, longitude]"
    by (auto simp: LiveWeatherDataManager_fetch_live_weather_data_def split: list.splits)
  from assms c obtain status b where r: "reply = Response status b" "\<not> raise_for_status status"
    by (cases reply)
       (auto simp: LiveWeatherDataManager_fetch_live_weather_data_def split: if_splits)
  from assms c r obtain j where b: "b = Some j"
    by (cases b) (auto simp: LiveWeatherDataManager_fetch_live_weather_data_def)
  from assms c r b obtain body where j: "j = JDict body"
    by (cases j) (auto simp: LiveWeatherDataManager_fetch_live_weather_data_def)
  from assms c r b j obtain normalized where
    n: "normalize_field_names body = Inr normalized"
    and d: "data = AList.update ''fetch_time'' (JStr fetch_time)
              (add_metadata city coordinates latitude longitude normalized)"
    by (cases "normalize_field_names body")
       (auto simp: LiveWeatherDataManager_fetch_live_weather_data_def)
  have "map_of data ''hourly'' = map_of normalized ''hourly''"
    by (simp add: d AList.update_conv' map_of_add_metadata_hourly)
  with n show ?thesis by blast
qed

text \<open>
  Claim C10. In the record that \<open>get_current_conditions\<close> returns for a city, the
  \<open>current\<close> mapping has a parameter exactly when the hourly series of the fetched data
  binds it to a list of at least two samples, and then it holds the last sample. A
  parameter with a single sample, an empty list or a value that is no list is left out.
\<close>

theorem current_conditions_last_sample:
  "city \<noteq> [] \<Longrightarrow>
   get_current_conditions backend clock locations city = Some conditions \<Longrightarrow>
   \<exists>data hourly.
     LiveWeatherDataManager_get_weather_data backend clock locations city = Some data \<and>
     map_of data ''hourly'' = Some (JDict hourly) \<and>
     (\<forall>param. map_of (cc_current conditions) param =
        (case map_of hourly param of
           Some (JList samples) \<Rightarrow> if 2 \<le> length samples then Some (last samples) else None
         | _ \<Rightarrow> None))"
proof -
  assume city: "city \<noteq> []"
    and cc: "get_current_conditions backend clock locations city = Some conditions"
  from cc obtain data where
    g: "LiveWeatherDataManager_get_weather_data backend clock locations city = Some data"
    by (cases "LiveWeatherDataManager_get_weather_data backend clock locations city")
       (auto simp: get_current_conditions_def)
  from cc g obtain hv where hv: "map_of data ''hourly'' = Some hv"
    by (cases "map_of data ''hourly''")
       (auto simp: get_current_conditions_def has_key_map_of split: if_splits)
  from cc g hv obtain hourly where h: "hv = JDict hourly"
    by (cases hv) (auto simp: get_current_conditions_def split: if_splits)
  from cc g hv h have cur: "cc_current conditions = extract_current hourly []"
    by (auto simp: get_current_conditions_def split: if_splits)
  from g city obtain coordinates where
    "LiveWeatherDataManager_fetch_live_weather_data
       (backend city coordinates) (clock city) city coordinates = Some data"
    by (auto simp: LiveWeatherDataManager_get_weather_data_def split: if_splits option.splits)
  from live_fetch_normalized[OF this] obtain body normalized where
    n: "normalize_field_names body = Inr normalized"
    "map_of data ''hourly'' = map_of normalized ''hourly''"
    by blast
  have "map_of normalized ''hourly'' = Some (JDict hourly)" using n(2) hv h by simp
  from normalize_field_names_hourly[OF n(1) this] obtain h0 where
    "JDict hourly = JDict (normalize_hourly h0)" by blast
  then have "distinct (map fst hourly)" by (simp add: distinct_normalize_hourly)
  then have "\<forall>param. map_of (cc_current conditions) param =
        (case map_of hourly param of
           Some (JList samples) \<Rightarrow> if 2 \<le> length samples then Some (last samples) else None
         | _ \<Rightarrow> None)"
    by (simp add: cur map_of_extract_current split: option.splits json.splits)
  with g hv h show ?thesis by blast
qed

lemma paris_sparse_fetched:
  "LiveWeatherDataManager_get_weather_data sparse_backend example_clock three_locations ''Paris'' =
   Some paris_sparse_record"
  by code_simp

lemma paris_conditions_computed:
  "get_current_conditions sparse_backend example_clock three_locations ''Paris'' =
   Some paris_conditions"
  by code_simp

text \<open>
  A reply for Paris with two temperatures, one rain sample, an empty snowfall list and a
  string field.
\<close>

theorem current_conditions_last_sample_witness:
  "get_current_conditions sparse_backend example_clock three_locations ''Paris'' =
     Some paris_conditions \<and>
   map_of (cc_current paris_conditions) ''temperature_2m'' = Some (JNum 6) \<and>
   map_of (cc_current paris_conditions) ''rain'' = None \<and>
   map_of (cc_current paris_conditions) ''snowfall'' = None \<and>
   map_of (cc_current paris_conditions) ''units'' = None"
proof -
  have c: "''Paris'' \<noteq> []" by simp
  from current_conditions_last_sample[OF c paris_conditions_computed]
  obtain data hourly where
    d: "LiveWeatherDataManager_get_weather_data sparse_backend example_clock three_locations
          ''Paris'' = Some data"
    and h: "map_of data ''hourly'' = Some (JDict hourly)"
    and p: "\<forall>param. map_of (cc_current paris_conditions) param =
        (case map_of hourly param of
           Some (JList samples) \<Rightarrow> if 2 \<le> length samples then Some (last samples) else None
         | _ \<Rightarrow> None)"
    by blast
  from d have "data = paris_sparse_record" by (simp add: paris_sparse_fetched)
  with h have hourly: "hourly =
         [(''time'', JList [JStr ''2024-01-01T00:00'', JStr ''2024-01-01T01:00'']),
          (''temperature_2m'', JList [JNum 5, JNum 6]),
          (''rain'', JList [JNum 0]),
          (''snowfall'', JList []),
          (''units'', JStr ''metric'')]"
    by (simp add: paris_sparse_record_def)
  have "map_of (cc_current paris_conditions) ''temperature_2m'' = Some (JNum 6)"
    and "map_of (cc_current paris_conditions) ''rain'' = None"
    and "map_of (cc_current paris_conditions) ''snowfall'' = None"
    and "map_of (cc_current paris_conditions) ''units'' = None"
    using p by (simp_all add: hourly)
  then show ?thesis using paris_conditions_computed by simp
qed

end
